theory Spec2Isabelle
  imports Complex_Main
begin

section \<open>IAPWS-08 seawater: a model of \<^verbatim>\<open>iapws08.py\<close>\<close>

text \<open>
  Python floats are read as real numbers: each arithmetic operation is the exact one, without
  rounding. Exceptions are values: a function that can raise returns \<open>error + 'a\<close>, with
  \<open>Inl\<close> for the exception. An addition, a multiplication or a division whose result is too
  large gives an infinity in Python and raises nothing, so it has no error case here. A power
  \<^verbatim>\<open>**\<close> with an integer exponent raises OverflowError there; the powers of \<^verbatim>\<open>_saline\<close>
  have that case, those of the other functions are the exact powers.
\<close>

subsection \<open>Python values and exceptions\<close>

datatype error =
  ZeroDivisionError | ValueError | TypeError | KeyError | AttributeError | OverflowError

text \<open>The value of an attribute of the object: \<^verbatim>\<open>None\<close>, a float, or a complex number.\<close>

datatype pyval = PNone | PFloat real | PComplex complex

definition bnd :: "error + 'a \<Rightarrow> ('a \<Rightarrow> error + 'b) \<Rightarrow> error + 'b" where
  "bnd m f = (case m of Inl e \<Rightarrow> Inl e | Inr x \<Rightarrow> f x)"

text \<open>\<^verbatim>\<open>a/b\<close> on floats raises ZeroDivisionError when \<^verbatim>\<open>b\<close> is zero.\<close>

definition fdiv :: "real \<Rightarrow> real \<Rightarrow> error + real" where
  "fdiv a b = (if b = 0 then Inl ZeroDivisionError else Inr (a / b))"

text \<open>\<^verbatim>\<open>math.log(x)\<close> raises ValueError (math domain error) unless \<^verbatim>\<open>x\<close> is positive.\<close>

definition flog :: "real \<Rightarrow> error + real" where
  "flog x = (if x \<le> 0 then Inl ValueError else Inr (ln x))"

text \<open>
  A real number whose absolute value is at least \<open>2\<^sup>1\<^sup>0\<^sup>2\<^sup>4 - 2\<^sup>9\<^sup>7\<^sup>0\<close> rounds to an infinity in the
  binary64 format.
\<close>

definition float_overflows :: "real \<Rightarrow> bool" where
  "float_overflows y \<longleftrightarrow> 2 ^ 1024 - 2 ^ 970 \<le> \<bar>y\<bar>"

text \<open>
  \<^verbatim>\<open>x**n\<close> for a float \<^verbatim>\<open>x\<close> and an integer \<^verbatim>\<open>n\<close>: zero to a negative power raises
  ZeroDivisionError, and a result that rounds to an infinity raises OverflowError. A result
  that is too small is zero or subnormal and raises nothing.
\<close>

definition fpow :: "real \<Rightarrow> int \<Rightarrow> error + real" where
  "fpow x n =
    (if x = 0 \<and> n < 0 then Inl ZeroDivisionError
     else if float_overflows (x powi n) then Inl OverflowError
     else Inr (x powi n))"

text \<open>
  The product \<^verbatim>\<open>X**a*tau**b*pi**c\<close> of a term of the saline series: the three powers are
  taken from left to right.
\<close>

definition pows :: "real \<Rightarrow> int \<Rightarrow> real \<Rightarrow> int \<Rightarrow> real \<Rightarrow> int \<Rightarrow> error + real" where
  "pows X a tau b ppi c =
    bnd (fpow X a) (\<lambda>x.
    bnd (fpow tau b) (\<lambda>t.
    bnd (fpow ppi c) (\<lambda>p.
    Inr (x * t * p))))"

text \<open>
  \<^verbatim>\<open>x**0.5\<close>: the square root of a non-negative float; for a negative float Python 3 returns
  the complex number \<open>\<i> * sqrt (- x)\<close>.
\<close>

definition pow_half :: "real \<Rightarrow> pyval" where
  "pow_half x = (if 0 \<le> x then PFloat (sqrt x) else PComplex (Complex 0 (sqrt (- x))))"

text \<open>\<^verbatim>\<open>a*v\<close> for a float \<^verbatim>\<open>a\<close> and the result \<^verbatim>\<open>v\<close> of a power.\<close>

fun fmul :: "real \<Rightarrow> pyval \<Rightarrow> error + pyval" where
  "fmul a (PFloat b) = Inr (PFloat (a * b))"
| "fmul a (PComplex c) = Inr (PComplex (complex_of_real a * c))"
| "fmul a PNone = Inl TypeError"

text \<open>
  A dictionary with string keys and float values, in insertion order. \<^verbatim>\<open>d[k]\<close> raises
  KeyError for a missing key; \<^verbatim>\<open>d[k] = v\<close> replaces the value of an existing key and
  appends a new one.
\<close>

type_synonym pydict = "(string \<times> real) list"

definition getitem :: "pydict \<Rightarrow> string \<Rightarrow> error + real" where
  "getitem d k = (case map_of d k of None \<Rightarrow> Inl KeyError | Some v \<Rightarrow> Inr v)"

fun setitem :: "pydict \<Rightarrow> string \<Rightarrow> real \<Rightarrow> pydict" where
  "setitem [] k v = [(k, v)]"
| "setitem ((k', v') # d) k v = (if k' = k then (k, v) # d else (k', v') # setitem d k v)"

subsection \<open>Constants\<close>

definition Rm :: real where "Rm = 8.314472"
definition Sn :: real where "Sn = 0.03516504"
definition Ms :: real where "Ms = 31.4038218"

text \<open>The local \<^verbatim>\<open>S_\<close> of \<^verbatim>\<open>_saline\<close>.\<close>

definition S_ref :: real where "S_ref = 0.03516504 * 40 / 35"

subsection \<open>Pure water: the delegate strategy \<^verbatim>\<open>_water\<close>\<close>

text \<open>
  The class \<^verbatim>\<open>IAPWS95\<close> is imported from another module. It is a parameter of the model: a
  function of \<open>T\<close> and \<open>P\<close> that raises or returns the six attributes that \<^verbatim>\<open>_water\<close> reads.
\<close>

record iapws95_state =
  water_h :: real
  water_s :: real
  water_rho :: real
  water_cp :: real
  water_betas :: real
  water_w :: real

type_synonym delegate = "real \<Rightarrow> real \<Rightarrow> error + iapws95_state"

definition water :: "delegate \<Rightarrow> real \<Rightarrow> real \<Rightarrow> error + pydict" where
  "water IAPWS95 T P =
    bnd (IAPWS95 T P) (\<lambda>w.
    bnd (fdiv 1 (water_rho w)) (\<lambda>gp.
    bnd (fdiv (- water_cp w) T) (\<lambda>gtt.
    bnd (fdiv (water_betas w * water_cp w) T) (\<lambda>gtp.
    bnd (fdiv (- 1000000) ((water_rho w * water_w w) ^ 2)) (\<lambda>q1.
    bnd (fdiv ((water_betas w) ^ 2 * 1000 * water_cp w) T) (\<lambda>q2.
    Inr [(''g'', water_h w - T * water_s w),
         (''gt'', - water_s w),
         (''gp'', gp),
         (''gtt'', gtt),
         (''gtp'', gtp),
         (''gpp'', q1 - q2),
         (''gs'', 0),
         (''gsp'', 0)]))))))"

subsection \<open>Pure water: the fast series \<^verbatim>\<open>_waterSupp\<close>\<close>

definition waterSupp_J :: "nat list" where
  "waterSupp_J =
    [0, 0, 0, 0, 0, 0, 0, 1, 1, 1, 1, 1, 1, 2, 2, 2, 2, 2, 2, 3, 3, 3,
     3, 3, 3, 4, 4, 4, 4, 4, 5, 5, 5, 5, 5, 6, 6, 6, 6, 7, 7]"

definition waterSupp_K :: "nat list" where
  "waterSupp_K =
    [0, 1, 2, 3, 4, 5, 6, 0, 1, 2, 3, 4, 5, 0, 1, 2, 3, 4, 5, 0, 1, 2,
     3, 4, 5, 0, 1, 2, 3, 4, 0, 1, 2, 3, 4, 0, 1, 2, 3, 0, 1]"

definition waterSupp_G :: "real list" where
  "waterSupp_G =
    [101.342743139674, 100015.695367145, - 2544.57654203630, 284.517778446287,
     - 33.3146754253611, 4.20263108803084, - 0.546428511471039, 5.90578347909402,
     - 270.983805184062, 776.153611613101, - 196.512550881220, 28.9796526294175,
     - 2.13290083518327, - 12357.7859330390, 1455.03645404680, - 756.558385769359,
     273.479662323528, - 55.5604063817218, 4.34420671917197, 736.741204151612,
     - 672.507783145070, 499.360390819152, - 239.545330654412, 48.8012518593872,
     - 1.66307106208905, - 148.185936433658, 397.968445406972, - 301.815380621876,
     152.196371733841, - 26.3748377232802, 58.0259125842571, - 194.618310617595,
     120.520654902025, - 55.2723052340152, 6.48190668077221, - 18.9843846514172,
     63.5113936641785, - 22.2897317140459, 8.17060541818112, 3.05081646487967,
     - 9.63108119393062]"

record acc6 =
  w_g :: real
  w_gt :: real
  w_gp :: real
  w_gtt :: real
  w_gtp :: real
  w_gpp :: real

definition acc6_zero :: acc6 where
  "acc6_zero = \<lparr>w_g = 0, w_gt = 0, w_gp = 0, w_gtt = 0, w_gtp = 0, w_gpp = 0\<rparr>"

text \<open>The body of the loop, for one entry \<open>(j, k, gi)\<close> of the table.\<close>

definition waterSupp_step :: "real \<Rightarrow> real \<Rightarrow> acc6 \<Rightarrow> nat \<times> nat \<times> real \<Rightarrow> acc6" where
  "waterSupp_step tau ppi a e =
    (case e of (j, k, gi) \<Rightarrow>
      let a1 = a\<lparr>w_g := w_g a + gi * tau ^ j * ppi ^ k\<rparr>;
          a2 = (if j \<ge> 1
                then a1\<lparr>w_gt := w_gt a1 + gi * real j * tau ^ (j - 1) * ppi ^ k\<rparr> else a1);
          a3 = (if k \<ge> 1
                then a2\<lparr>w_gp := w_gp a2 + real k * gi * tau ^ j * ppi ^ (k - 1)\<rparr> else a2);
          a4 = (if j \<ge> 2
                then a3\<lparr>w_gtt := w_gtt a3 + real j * (real j - 1) * gi * tau ^ (j - 2) * ppi ^ k\<rparr>
                else a3);
          a5 = (if j \<ge> 1 \<and> k \<ge> 1
                then a4\<lparr>w_gtp := w_gtp a4 + real j * real k * gi * tau ^ (j - 1) * ppi ^ (k - 1)\<rparr>
                else a4);
          a6 = (if k \<ge> 2
                then a5\<lparr>w_gpp := w_gpp a5 + real k * (real k - 1) * gi * tau ^ j * ppi ^ (k - 2)\<rparr>
                else a5)
      in a6)"

text \<open>The accumulators after the loop over \<^verbatim>\<open>zip(J, K, G)\<close>.\<close>

definition waterSupp_sums :: "real \<Rightarrow> real \<Rightarrow> acc6" where
  "waterSupp_sums tau ppi =
    foldl (waterSupp_step tau ppi) acc6_zero (zip waterSupp_J (zip waterSupp_K waterSupp_G))"

definition waterSupp :: "real \<Rightarrow> real \<Rightarrow> pydict" where
  "waterSupp T P =
    (let tau = (T - 273.15) / 40;
         ppi = (P - 0.101325) / 100;
         a = waterSupp_sums tau ppi
     in [(''g'', w_g a * 0.001),
         (''gt'', w_gt a / 40 * 0.001),
         (''gp'', w_gp a / 100 * 0.000001),
         (''gtt'', w_gtt a / 40 ^ 2 * 0.001),
         (''gtp'', w_gtp a / 40 / 100 * 0.000001),
         (''gpp'', w_gpp a / 100 ^ 2 * 0.000001),
         (''gs'', 0),
         (''gsp'', 0)])"

subsection \<open>The saline term \<^verbatim>\<open>_saline\<close>\<close>

definition saline_I :: "nat list" where
  "saline_I =
    [1, 2, 3, 4, 5, 6, 7, 1, 2, 3, 4, 5, 6, 2, 3, 4, 2, 3, 4, 2, 3, 4,
     2, 4, 2, 2, 3, 4, 5, 2, 3, 4, 2, 3, 2, 3, 2, 3, 2, 3, 4, 2, 3, 2,
     3, 2, 2, 2, 3, 4, 2, 3, 2, 3, 2, 2, 2, 3, 2, 2, 2, 2, 2, 2]"

definition saline_J :: "nat list" where
  "saline_J =
    [0, 0, 0, 0, 0, 0, 0, 1, 1, 1, 1, 1, 1, 2, 2, 2, 3, 3, 3, 4, 4, 4,
     5, 5, 6, 0, 0, 0, 0, 1, 1, 1, 2, 2, 3, 3, 4, 4, 0, 0, 0, 1, 1, 2,
     2, 3, 4, 0, 0, 0, 1, 1, 2, 2, 3, 4, 0, 0, 1, 2, 3, 0, 1, 2]"

definition saline_K :: "nat list" where
  "saline_K =
    [0, 0, 0, 0, 0, 0, 0, 0, 0, 0, 0, 0, 0, 0, 0, 0, 0, 0, 0, 0, 0, 0,
     0, 0, 0, 1, 1, 1, 1, 1, 1, 1, 1, 1, 1, 1, 1, 1, 2, 2, 2, 2, 2, 2,
     2, 2, 2, 3, 3, 3, 3, 3, 3, 3, 3, 3, 4, 4, 4, 4, 4, 5, 5, 5]"

definition saline_G :: "real list" where
  "saline_G =
    [5812.81456626732, 1416.27648484197, - 2432.14662381794, 2025.80115603697,
     - 1091.66841042967, 374.601237877840, - 48.5891069025409, 851.226734946706,
     168.072408311545, - 493.407510141682, 543.835333000098, - 196.028306689776,
     36.7571622995805, 880.031352997204, - 43.0664675978042, - 68.5572509204491,
     - 225.267649263401, - 10.0227370861875, 49.3667694856254, 91.4260447751259,
     0.875600661808945, - 17.1397577419788, - 21.6603240875311, 2.49697009569508,
     2.13016970847183, - 3310.49154044839, 199.459603073901, - 54.7919133532887,
     36.0284195611086, 729.116529735046, - 175.292041186547, - 22.6683558512829,
     - 860.764303783977, 383.058066002476, 694.244814133268, - 460.319931801257,
     - 297.728741987187, 234.565187611355, 384.794152978599, - 52.2940909281335,
     - 4.08193978912261, - 343.956902961561, 83.1923927801819, 337.409530269367,
     - 54.1917262517112, - 204.889641964903, 74.7261411387560, - 96.5324320107458,
     68.0444942726459, - 30.1755111971161, 124.687671116248, - 29.4830643494290,
     - 178.314556207638, 25.6398487389914, 113.561697840594, - 36.4872919001588,
     15.8408172766824, - 3.41251932441282, - 31.6569643860730, 44.2040358308000,
     - 11.1282734326413, - 2.62480156590992, 7.04658803315449, - 7.92001547211682]"

record acc8 =
  s_g :: real
  s_gt :: real
  s_gp :: real
  s_gtt :: real
  s_gtp :: real
  s_gpp :: real
  s_gs :: real
  s_gsp :: real

definition acc8_zero :: acc8 where
  "acc8_zero =
    \<lparr>s_g = 0, s_gt = 0, s_gp = 0, s_gtt = 0, s_gtp = 0, s_gpp = 0, s_gs = 0, s_gsp = 0\<rparr>"

text \<open>
  The body of the loop, for one entry \<open>(i, j, k, gi)\<close> of the table. The calls that can raise
  are \<^verbatim>\<open>log(X)\<close> and the powers; they are made in the order of the source, statement by
  statement and from left to right, so that the first exception is the one of the source.
  The exponents are Python integers: \<^verbatim>\<open>i-2\<close> is negative for \<open>i = 1\<close>.
\<close>

definition saline_step ::
    "real \<Rightarrow> real \<Rightarrow> real \<Rightarrow> acc8 \<Rightarrow> nat \<times> nat \<times> nat \<times> real \<Rightarrow> error + acc8" where
  "saline_step X tau ppi a e =
    (case e of (i, j, k, gi) \<Rightarrow>
      bnd (if i = 1
           then bnd (fpow X 2) (\<lambda>x2.
                bnd (flog X) (\<lambda>l.
                bnd (fpow tau (int j)) (\<lambda>t.
                bnd (fpow ppi (int k)) (\<lambda>p.
                  Inr (a\<lparr>s_g := s_g a + gi * x2 * l * t * p,
                         s_gs := s_gs a + gi * (2 * l + 1) * t * p\<rparr>)))))
           else bnd (pows X (int i) tau (int j) ppi (int k)) (\<lambda>q1.
                bnd (pows X (int i - 2) tau (int j) ppi (int k)) (\<lambda>q2.
                  Inr (a\<lparr>s_g := s_g a + gi * q1,
                         s_gs := s_gs a + real i * gi * q2\<rparr>)))) (\<lambda>a1.
      bnd (if j \<ge> 1
           then (if i = 1
                 then bnd (fpow X 2) (\<lambda>x2.
                      bnd (flog X) (\<lambda>l.
                      bnd (fpow tau (int j - 1)) (\<lambda>t.
                      bnd (fpow ppi (int k)) (\<lambda>p.
                        Inr (a1\<lparr>s_gt := s_gt a1 + gi * x2 * l * real j * t * p\<rparr>)))))
                 else bnd (pows X (int i) tau (int j - 1) ppi (int k)) (\<lambda>q.
                        Inr (a1\<lparr>s_gt := s_gt a1 + gi * real j * q\<rparr>)))
           else Inr a1) (\<lambda>a2.
      bnd (if k \<ge> 1
           then bnd (pows X (int i) tau (int j) ppi (int k - 1)) (\<lambda>q1.
                bnd (pows X (int i - 2) tau (int j) ppi (int k - 1)) (\<lambda>q2.
                  Inr (a2\<lparr>s_gp := s_gp a2 + real k * gi * q1,
                          s_gsp := s_gsp a2 + real i * real k * gi * q2\<rparr>)))
           else Inr a2) (\<lambda>a3.
      bnd (if j \<ge> 2
           then bnd (pows X (int i) tau (int j - 2) ppi (int k)) (\<lambda>q.
                  Inr (a3\<lparr>s_gtt := s_gtt a3 + real j * (real j - 1) * gi * q\<rparr>))
           else Inr a3) (\<lambda>a4.
      bnd (if j \<ge> 1 \<and> k \<ge> 1
           then bnd (pows X (int i) tau (int j - 1) ppi (int k - 1)) (\<lambda>q.
                  Inr (a4\<lparr>s_gtp := s_gtp a4 + real j * real k * gi * q\<rparr>))
           else Inr a4) (\<lambda>a5.
      if k \<ge> 2
      then bnd (pows X (int i) tau (int j) ppi (int k - 2)) (\<lambda>q.
             Inr (a5\<lparr>s_gpp := s_gpp a5 + real k * (real k - 1) * gi * q\<rparr>))
      else Inr a5))))))"

text \<open>The loop over \<^verbatim>\<open>zip(I, J, K, G)\<close>: it stops at the first exception.\<close>

fun saline_loop ::
    "real \<Rightarrow> real \<Rightarrow> real \<Rightarrow> (nat \<times> nat \<times> nat \<times> real) list \<Rightarrow> acc8 \<Rightarrow> error + acc8" where
  "saline_loop X tau ppi [] a = Inr a"
| "saline_loop X tau ppi (e # es) a = bnd (saline_step X tau ppi a e) (saline_loop X tau ppi es)"

definition saline_table :: "(nat \<times> nat \<times> nat \<times> real) list" where
  "saline_table = zip saline_I (zip saline_J (zip saline_K saline_G))"

text \<open>
  The accumulators when the normalisation starts. The loop runs only for \<open>S \<noteq> 0\<close>. For a
  negative \<open>S\<close> the value \<^verbatim>\<open>X\<close> is complex, and the first entry of the table, which has
  \<open>i = 1\<close>, passes it to \<^verbatim>\<open>math.log\<close>, which raises TypeError.
\<close>

definition saline_sums :: "real \<Rightarrow> real \<Rightarrow> real \<Rightarrow> error + acc8" where
  "saline_sums T P S =
    (let X = pow_half (S / S_ref);
         tau = (T - 273.15) / 40;
         ppi = (P - 0.101325) / 100
     in if S \<noteq> 0
        then (case X of
                PFloat x \<Rightarrow> saline_loop x tau ppi saline_table acc8_zero
              | _ \<Rightarrow> Inl TypeError)
        else Inr acc8_zero)"

definition saline :: "real \<Rightarrow> real \<Rightarrow> real \<Rightarrow> error + pydict" where
  "saline T P S =
    bnd (saline_sums T P S) (\<lambda>a.
    Inr [(''g'', s_g a * 0.001),
         (''gt'', s_gt a / 40 * 0.001),
         (''gp'', s_gp a / 100 * 0.000001),
         (''gtt'', s_gtt a / 40 ^ 2 * 0.001),
         (''gtp'', s_gtp a / 40 / 100 * 0.000001),
         (''gpp'', s_gpp a / 100 ^ 2 * 0.000001),
         (''gs'', s_gs a / S_ref / 2 * 0.001),
         (''gsp'', s_gsp a / S_ref / 2 / 100 * 0.000001)])"

subsection \<open>The object\<close>

text \<open>
  The dictionary \<^verbatim>\<open>kwargs\<close> of the four inputs. A value of \<open>T\<close>, \<open>P\<close> or \<open>S\<close> is a float or
  \<^verbatim>\<open>None\<close>.
\<close>

record kwargs_t =
  kw_T :: "real option"
  kw_P :: "real option"
  kw_S :: "real option"
  kw_fast :: bool

text \<open>The keyword arguments of one call: each key is given or not.\<close>

record call_args =
  arg_T :: "real option option"
  arg_P :: "real option option"
  arg_S :: "real option option"
  arg_fast :: "bool option"

text \<open>
  An instance: its \<^verbatim>\<open>kwargs\<close>, \<^verbatim>\<open>status\<close> and \<^verbatim>\<open>msg\<close>, and the attributes that
  \<^verbatim>\<open>calculo\<close> sets, by name. A name that \<open>attrs\<close> maps to \<open>None\<close> is not an attribute of
  the object.
\<close>

record seawater =
  kwargs :: kwargs_t
  status :: int
  msg :: string
  attrs :: "string \<rightharpoonup> pyval"

definition setattr :: "seawater \<Rightarrow> string \<Rightarrow> pyval \<Rightarrow> seawater" where
  "setattr self name v = self\<lparr>attrs := (attrs self)(name \<mapsto> v)\<rparr>"

text \<open>The class attributes \<^verbatim>\<open>kwargs\<close>, \<^verbatim>\<open>status\<close> and \<^verbatim>\<open>msg\<close>.\<close>

definition SeaWater_kwargs :: kwargs_t where
  "SeaWater_kwargs = \<lparr>kw_T = Some 0, kw_P = Some 0, kw_S = None, kw_fast = False\<rparr>"

definition SeaWater_new :: seawater where
  "SeaWater_new =
    \<lparr>kwargs = SeaWater_kwargs, status = 0, msg = ''Undefined'', attrs = Map.empty\<rparr>"

text \<open>\<^verbatim>\<open>self.kwargs.update(kwargs)\<close>\<close>

definition update_kwargs :: "kwargs_t \<Rightarrow> call_args \<Rightarrow> kwargs_t" where
  "update_kwargs kw a =
    \<lparr>kw_T = (case arg_T a of None \<Rightarrow> kw_T kw | Some v \<Rightarrow> v),
     kw_P = (case arg_P a of None \<Rightarrow> kw_P kw | Some v \<Rightarrow> v),
     kw_S = (case arg_S a of None \<Rightarrow> kw_S kw | Some v \<Rightarrow> v),
     kw_fast = (case arg_fast a of None \<Rightarrow> kw_fast kw | Some v \<Rightarrow> v)\<rparr>"

text \<open>The truth value of a float or \<^verbatim>\<open>None\<close>.\<close>

definition truthy :: "real option \<Rightarrow> bool" where
  "truthy v = (case v of None \<Rightarrow> False | Some x \<Rightarrow> x \<noteq> 0)"

subsection \<open>\<^verbatim>\<open>calculo\<close>\<close>

text \<open>
  \<^verbatim>\<open>for key in pw: prop[key] = pw[key]+ps[key]; self.__setattr__(key, prop[key])\<close>,
  over the keys of \<^verbatim>\<open>pw\<close> in their order.
\<close>

fun sum_loop ::
    "string list \<Rightarrow> pydict \<Rightarrow> pydict \<Rightarrow> pydict \<times> seawater \<Rightarrow> error + pydict \<times> seawater" where
  "sum_loop [] pw ps st = Inr st"
| "sum_loop (key # keys) pw ps st =
    bnd (getitem pw key) (\<lambda>a.
    bnd (getitem ps key) (\<lambda>b.
    let prop = setitem (fst st) key (a + b) in
    bnd (getitem prop key) (\<lambda>v.
    sum_loop keys pw ps (prop, setattr (snd st) key (PFloat v)))))"

text \<open>
  The choice of the strategy for pure water:
  \<^verbatim>\<open>if self.kwargs["fast"] and T <= 313.15: pw = self._waterSupp(T, P)\<close>,
  \<^verbatim>\<open>else: pw = self._water(T, P)\<close>.
\<close>

definition pure_water :: "delegate \<Rightarrow> bool \<Rightarrow> real \<Rightarrow> real \<Rightarrow> error + pydict" where
  "pure_water IAPWS95 fast T P =
    (if fast \<and> T \<le> 313.15 then Inr (waterSupp T P) else water IAPWS95 T P)"

text \<open>
  The attributes that depend on the salinity, \<^verbatim>\<open>if S: ... else: ...\<close>: the right-hand sides
  are evaluated in the order of the source.
\<close>

definition salinity_outputs ::
    "real \<Rightarrow> real \<Rightarrow> real \<Rightarrow> pydict \<Rightarrow> pydict \<Rightarrow> seawater \<Rightarrow> error + seawater" where
  "salinity_outputs T S m prop ps self =
    (if S \<noteq> 0
     then
       bnd (getitem prop ''gs'') (\<lambda>gs.
       bnd (getitem prop ''g'') (\<lambda>g.
       bnd (getitem ps ''g'') (\<lambda>ps_g.
       bnd (fdiv (- (ps_g - S * gs)) m) (\<lambda>o1.
       bnd (fdiv (o1 / Rm) T) (\<lambda>osm.
       bnd (getitem prop ''gsp'') (\<lambda>gsp.
       bnd (getitem prop ''gp'') (\<lambda>gp.
       bnd (fdiv (- gsp) gp) (\<lambda>haline.
       Inr (setattr (setattr (setattr (setattr (setattr self
              ''mu'' (PFloat gs))
              ''muw'' (PFloat (g - S * gs)))
              ''mus'' (PFloat (g + (1 - S) * gs)))
              ''osm'' (PFloat osm))
              ''haline'' (PFloat haline))))))))))
     else
       Inr (setattr (setattr (setattr (setattr (setattr self
              ''mu'' PNone) ''muw'' PNone) ''mus'' PNone) ''osm'' PNone) ''haline'' PNone))"

text \<open>
  The attributes from \<^verbatim>\<open>self.T\<close> to \<^verbatim>\<open>self.w\<close>. The divisions are made in the order
  of the source; the attributes are set once all of them have succeeded.
\<close>

definition derived_outputs :: "real \<Rightarrow> real \<Rightarrow> pydict \<Rightarrow> seawater \<Rightarrow> error + seawater" where
  "derived_outputs T P prop self =
    bnd (getitem prop ''g'') (\<lambda>g.
    bnd (getitem prop ''gt'') (\<lambda>gt.
    bnd (getitem prop ''gp'') (\<lambda>gp.
    bnd (getitem prop ''gtt'') (\<lambda>gtt.
    bnd (getitem prop ''gtp'') (\<lambda>gtp.
    bnd (getitem prop ''gpp'') (\<lambda>gpp.
    bnd (fdiv 1 gp) (\<lambda>rho.
    bnd (fdiv gtp gp) (\<lambda>alfa.
    bnd (fdiv (- gtp) gtt) (\<lambda>betas.
    bnd (fdiv (- gpp) gp) (\<lambda>kt.
    bnd (fdiv (gtp ^ 2 - gt * gpp) gp) (\<lambda>ks1.
    bnd (fdiv ks1 gtt) (\<lambda>ks.
    bnd (fdiv (gtt * 1000) (gtp ^ 2 - gtt * 1000 * gpp * 0.000001)) (\<lambda>r.
    bnd (fmul gp (pow_half r)) (\<lambda>w.
    Inr (setattr (setattr (setattr (setattr (setattr (setattr (setattr
        (setattr (setattr (setattr (setattr (setattr (setattr (setattr self
          ''T'' (PFloat T))
          ''P'' (PFloat P))
          ''rho'' (PFloat rho))
          ''v'' (PFloat gp))
          ''s'' (PFloat (- gt)))
          ''cp'' (PFloat (- T * gtt)))
          ''h'' (PFloat (g - T * gt)))
          ''u'' (PFloat (g - T * gt - P * 1000 * gp)))
          ''a'' (PFloat (g - P * 1000 * gp)))
          ''alfa'' (PFloat alfa))
          ''betas'' (PFloat betas))
          ''kt'' (PFloat kt))
          ''ks'' (PFloat ks))
          ''w'' w)))))))))))))))"

definition calculo_body ::
    "delegate \<Rightarrow> seawater \<Rightarrow> real \<Rightarrow> real \<Rightarrow> real \<Rightarrow> error + seawater" where
  "calculo_body IAPWS95 self T P S =
    bnd (fdiv S (1 - S)) (\<lambda>q.
    let m = q / Ms in
    bnd (pure_water IAPWS95 (kw_fast (kwargs self)) T P) (\<lambda>pw.
    bnd (saline T P S) (\<lambda>ps.
    bnd (sum_loop (map fst pw) pw ps ([], self)) (\<lambda>st.
    let prop = fst st in
    bnd (derived_outputs T P prop (snd st)) (\<lambda>self1.
    salinity_outputs T S m prop ps self1)))))"

text \<open>
  \<^verbatim>\<open>calculo\<close> reads the three inputs from \<^verbatim>\<open>self.kwargs\<close>. \<^verbatim>\<open>__call__\<close> calls it only when
  all three are floats. Called with an input that is \<^verbatim>\<open>None\<close> it raises: the arithmetic on
  \<^verbatim>\<open>None\<close> raises TypeError, which stands here for every exception of that case.
\<close>

definition calculo :: "delegate \<Rightarrow> seawater \<Rightarrow> error + seawater" where
  "calculo IAPWS95 self =
    (case (kw_T (kwargs self), kw_P (kwargs self), kw_S (kwargs self)) of
       (Some T, Some P, Some S) \<Rightarrow> calculo_body IAPWS95 self T P S
     | _ \<Rightarrow> Inl TypeError)"

subsection \<open>\<^verbatim>\<open>__call__\<close> and \<^verbatim>\<open>__init__\<close>\<close>

definition call :: "delegate \<Rightarrow> seawater \<Rightarrow> call_args \<Rightarrow> error + seawater" where
  "call IAPWS95 self a =
    (let self1 = self\<lparr>kwargs := update_kwargs (kwargs self) a\<rparr>
     in if truthy (kw_T (kwargs self1)) \<and> truthy (kw_P (kwargs self1)) \<and> kw_S (kwargs self1) \<noteq> None
        then bnd (calculo IAPWS95 (self1\<lparr>status := 1\<rparr>)) (\<lambda>self2. Inr (self2\<lparr>msg := ''''\<rparr>))
        else Inr self1)"

definition init :: "delegate \<Rightarrow> call_args \<Rightarrow> error + seawater" where
  "init IAPWS95 a = call IAPWS95 (SeaWater_new\<lparr>kwargs := SeaWater_kwargs\<rparr>) a"

subsection \<open>Auxiliary definitions\<close>

text \<open>
  The dictionary that \<^verbatim>\<open>_water\<close>, \<^verbatim>\<open>_waterSupp\<close> and \<^verbatim>\<open>_saline\<close> build: the eight keys in
  the order of their insertion.
\<close>

definition dict8 ::
    "real \<Rightarrow> real \<Rightarrow> real \<Rightarrow> real \<Rightarrow> real \<Rightarrow> real \<Rightarrow> real \<Rightarrow> real \<Rightarrow> pydict" where
  "dict8 g gt gp gtt gtp gpp gs gsp =
    [(''g'', g), (''gt'', gt), (''gp'', gp), (''gtt'', gtt), (''gtp'', gtp), (''gpp'', gpp),
     (''gs'', gs), (''gsp'', gsp)]"

text \<open>
  A result that is a value or the exception OverflowError: no other exception was raised.
\<close>

definition returns_or_overflows :: "error + 'a \<Rightarrow> bool" where
  "returns_or_overflows r \<longleftrightarrow> (\<exists>y. r = Inr y) \<or> r = Inl OverflowError"

text \<open>
  A delegate that always raises, for the evaluations in fast mode, which never call it.
\<close>

definition no_IAPWS95 :: delegate where
  "no_IAPWS95 T P = Inl AttributeError"

text \<open>The object after the loop that sums the two dictionaries and sets the eight attributes.\<close>

definition summed ::
    "seawater \<Rightarrow> real \<Rightarrow> real \<Rightarrow> real \<Rightarrow> real \<Rightarrow> real \<Rightarrow> real \<Rightarrow> real \<Rightarrow> real \<Rightarrow> seawater" where
  "summed self g gt gp gtt gtp gpp gs gsp =
     setattr (setattr (setattr (setattr (setattr (setattr (setattr (setattr self
          ''g'' (PFloat g)) ''gt'' (PFloat gt)) ''gp'' (PFloat gp))
          ''gtt'' (PFloat gtt)) ''gtp'' (PFloat gtp)) ''gpp'' (PFloat gpp))
          ''gs'' (PFloat gs)) ''gsp'' (PFloat gsp)"

text \<open>
  The arguments of \<^verbatim>\<open>SeaWater(T=273.15, P=0.101325, S=0.03516504*40/35, fast=True)\<close>: there
  \<open>tau = 0\<close>, \<open>pi = 0\<close> and \<open>X = 1\<close>, and both series are sums of rational numbers.
\<close>

definition origin_args :: call_args where
  "origin_args =
    \<lparr>arg_T = Some (Some 273.15), arg_P = Some (Some 0.101325), arg_S = Some (Some S_ref),
     arg_fast = Some True\<rparr>"

text \<open>The arguments of \<^verbatim>\<open>SeaWater(T=273.15, P=0.101325, fast=True)\<close>, without a salinity.\<close>

definition no_salinity_args :: call_args where
  "no_salinity_args =
    \<lparr>arg_T = Some (Some 273.15), arg_P = Some (Some 0.101325), arg_S = None,
     arg_fast = Some True\<rparr>"

text \<open>The object of the origin arguments when \<^verbatim>\<open>__call__\<close> calls \<^verbatim>\<open>calculo\<close>.\<close>

definition origin_self :: seawater where
  "origin_self = SeaWater_new\<lparr>kwargs := update_kwargs SeaWater_kwargs origin_args, status := 1\<rparr>"

text \<open>The arguments of \<^verbatim>\<open>SeaWater(T=273.15, P=0.101325, S=0, fast=True)\<close>, and their object.\<close>

definition fresh_args :: call_args where
  "fresh_args =
    \<lparr>arg_T = Some (Some 273.15), arg_P = Some (Some 0.101325), arg_S = Some (Some 0),
     arg_fast = Some True\<rparr>"

definition fresh_self :: seawater where
  "fresh_self = SeaWater_new\<lparr>kwargs := update_kwargs SeaWater_kwargs fresh_args, status := 1\<rparr>"


subsection \<open>Lemmas about the operations\<close>

lemma bnd_Inl [simp]: "bnd (Inl e) f = Inl e"
  by (simp add: bnd_def)

lemma bnd_Inr [simp]: "bnd (Inr x) f = f x"
  by (simp add: bnd_def)

lemma bnd_eq_Inr: "bnd m f = Inr y \<longleftrightarrow> (\<exists>x. m = Inr x \<and> f x = Inr y)"
  by (cases m) simp_all

lemma fdiv_eq_Inr: "fdiv a b = Inr q \<longleftrightarrow> b \<noteq> 0 \<and> q = a / b"
  by (auto simp: fdiv_def)

lemma flog_pos: "0 < x \<Longrightarrow> flog x = Inr (ln x)"
  by (simp add: flog_def)

lemma fpow_ok:
  "0 \<le> n \<Longrightarrow> \<not> float_overflows (x powi n) \<Longrightarrow> fpow x n = Inr (x powi n)"
  by (simp add: fpow_def)

lemma fpow_one [simp]: "fpow 1 n = Inr 1"
  by (simp add: fpow_def float_overflows_def)

lemma fpow_zero [simp]: "0 \<le> n \<Longrightarrow> fpow 0 n = Inr (if n = 0 then 1 else 0)"
  by (simp add: fpow_def float_overflows_def power_int_0_left_if)

lemma fpow_exp_zero [simp]: "fpow x 0 = Inr 1"
  by (simp add: fpow_def float_overflows_def)

lemma fpow_eq_Inr: "fpow x n = Inr y \<Longrightarrow> y = x powi n"
  by (auto simp: fpow_def split: if_splits)

lemma fpow_no_domain_error:
  "x \<noteq> 0 \<or> 0 \<le> n \<Longrightarrow> (\<exists>y. fpow x n = Inr y) \<or> fpow x n = Inl OverflowError"
  by (auto simp: fpow_def)

lemma pows_ok:
  assumes "0 \<le> a" "\<not> float_overflows (X powi a)"
      and "0 \<le> b" "\<not> float_overflows (tau powi b)"
      and "0 \<le> c" "\<not> float_overflows (ppi powi c)"
  shows "pows X a tau b ppi c = Inr (X powi a * tau powi b * ppi powi c)"
  using assms by (simp add: pows_def fpow_ok)

lemma roo_Inr [simp]: "returns_or_overflows (Inr x)"
  by (simp add: returns_or_overflows_def)

lemma roo_bnd:
  assumes "returns_or_overflows m" and "\<And>x. returns_or_overflows (f x)"
  shows "returns_or_overflows (bnd m f)"
  using assms by (cases m) (auto simp: returns_or_overflows_def)

lemma roo_fpow: "x \<noteq> 0 \<or> 0 \<le> n \<Longrightarrow> returns_or_overflows (fpow x n)"
  using fpow_no_domain_error [of x n] by (auto simp: returns_or_overflows_def)

lemma roo_pows:
  "X \<noteq> 0 \<or> 0 \<le> a \<Longrightarrow> 0 \<le> b \<Longrightarrow> 0 \<le> c \<Longrightarrow> returns_or_overflows (pows X a tau b ppi c)"
  unfolding pows_def by (intro roo_bnd roo_fpow roo_Inr) auto

lemma roo_flog: "0 < x \<Longrightarrow> returns_or_overflows (flog x)"
  by (simp add: flog_def)

lemma roo_if:
  assumes "c \<Longrightarrow> returns_or_overflows a" and "\<not> c \<Longrightarrow> returns_or_overflows b"
  shows "returns_or_overflows (if c then a else b)"
  using assms by simp

lemma saline_step_no_domain_error:
  assumes "0 < X"
  shows "returns_or_overflows (saline_step X tau ppi a e)"
proof -
  obtain i j k gi where e: "e = (i, j, k, gi)"
    by (cases e) auto
  have X: "X \<noteq> 0" using assms by simp
  show ?thesis
    unfolding e saline_step_def prod.case
    by (intro roo_bnd roo_if roo_Inr roo_fpow roo_pows roo_flog) (use assms in auto)
qed

lemma saline_loop_no_domain_error:
  "0 < X \<Longrightarrow> returns_or_overflows (saline_loop X tau ppi es a)"
proof (induction es arbitrary: a)
  case Nil
  show ?case by simp
next
  case (Cons e es)
  show ?case
    using saline_step_no_domain_error [OF Cons.prems] Cons.IH [OF Cons.prems]
    by (simp add: roo_bnd)
qed

lemma power_no_overflow:
  assumes "\<bar>x\<bar> \<le> B" "1 \<le> B" "B ^ N < 2 ^ 1024 - 2 ^ 970" "0 \<le> n" "n \<le> int N"
  shows "\<not> float_overflows (x powi n)"
proof -
  have "\<bar>x powi n\<bar> = \<bar>x\<bar> ^ nat n"
    using assms(4) by (simp add: power_int_def power_abs)
  also have "\<dots> \<le> B ^ nat n"
    using assms(1) by (simp add: power_mono)
  also have "\<dots> \<le> B ^ N"
    using assms(2,5) by (simp add: power_increasing)
  finally show ?thesis
    using assms(3) by (simp add: float_overflows_def)
qed

lemma saline_step_ok:
  assumes X: "0 < X"
      and e: "1 \<le> i" "i = 1 \<longrightarrow> k = 0"
      and PX: "\<And>n. 0 \<le> n \<Longrightarrow> n \<le> max 2 (int i) \<Longrightarrow> \<not> float_overflows (X powi n)"
      and PT: "\<And>n. 0 \<le> n \<Longrightarrow> n \<le> int j \<Longrightarrow> \<not> float_overflows (tau powi n)"
      and PP: "\<And>n. 0 \<le> n \<Longrightarrow> n \<le> int k \<Longrightarrow> \<not> float_overflows (ppi powi n)"
  shows "\<exists>a'. saline_step X tau ppi a (i, j, k, gi) = Inr a'"
proof (cases "i = 1")
  case True
  then have k: "k = 0" using e by simp
  have x2: "fpow X 2 = Inr (X powi 2)"
    by (intro fpow_ok PX) simp_all
  have t: "fpow tau (int j) = Inr (tau powi int j)"
    by (intro fpow_ok PT) simp_all
  have t1: "1 \<le> j \<Longrightarrow> fpow tau (int j - 1) = Inr (tau powi (int j - 1))"
    by (intro fpow_ok PT) simp_all
  have t2: "2 \<le> j \<Longrightarrow>
      pows X 1 tau (int j - 2) ppi 0 = Inr (X powi 1 * tau powi (int j - 2) * ppi powi 0)"
    by (intro pows_ok PX PT PP) simp_all
  have p0: "fpow ppi 0 = Inr 1"
    using fpow_ok [of 0 ppi] PP [of 0] by simp
  show ?thesis
    unfolding saline_step_def prod.case
    using X True k x2 t t1 t2 p0 by (simp add: flog_pos)
next
  case False
  then have i2: "2 \<le> i" using e by simp
  have p: "pows X a tau b ppi c = Inr (X powi a * tau powi b * ppi powi c)"
    if "0 \<le> a" "a \<le> int i" "0 \<le> b" "b \<le> int j" "0 \<le> c" "c \<le> int k" for a b c
    using that by (intro pows_ok PX PT PP) simp_all
  have "pows X (int i) tau (int j) ppi (int k) = Inr (X powi int i * tau powi int j * ppi powi int k)"
    "pows X (int i - 2) tau (int j) ppi (int k) =
       Inr (X powi (int i - 2) * tau powi int j * ppi powi int k)"
    "1 \<le> j \<Longrightarrow> pows X (int i) tau (int j - 1) ppi (int k) =
       Inr (X powi int i * tau powi (int j - 1) * ppi powi int k)"
    "1 \<le> k \<Longrightarrow> pows X (int i) tau (int j) ppi (int k - 1) =
       Inr (X powi int i * tau powi int j * ppi powi (int k - 1))"
    "1 \<le> k \<Longrightarrow> pows X (int i - 2) tau (int j) ppi (int k - 1) =
       Inr (X powi (int i - 2) * tau powi int j * ppi powi (int k - 1))"
    "2 \<le> j \<Longrightarrow> pows X (int i) tau (int j - 2) ppi (int k) =
       Inr (X powi int i * tau powi (int j - 2) * ppi powi int k)"
    "1 \<le> j \<Longrightarrow> 1 \<le> k \<Longrightarrow> pows X (int i) tau (int j - 1) ppi (int k - 1) =
       Inr (X powi int i * tau powi (int j - 1) * ppi powi (int k - 1))"
    "2 \<le> k \<Longrightarrow> pows X (int i) tau (int j) ppi (int k - 2) =
       Inr (X powi int i * tau powi int j * ppi powi (int k - 2))"
    using i2 by (simp_all add: p)
  then show ?thesis
    using False by (simp add: saline_step_def)
qed

lemma S_ref_pos: "0 < S_ref"
  by (simp add: S_ref_def)

lemma saline_loop_ok:
  assumes X: "0 < X"
      and I: "2 \<le> I"
      and PX: "\<And>n. 0 \<le> n \<Longrightarrow> n \<le> int I \<Longrightarrow> \<not> float_overflows (X powi n)"
      and PT: "\<And>n. 0 \<le> n \<Longrightarrow> n \<le> int J \<Longrightarrow> \<not> float_overflows (tau powi n)"
      and PP: "\<And>n. 0 \<le> n \<Longrightarrow> n \<le> int K \<Longrightarrow> \<not> float_overflows (ppi powi n)"
      and es: "\<forall>e \<in> set es. 1 \<le> fst e \<and> fst e \<le> I \<and> fst (snd e) \<le> J \<and>
                 fst (snd (snd e)) \<le> K \<and> (fst e = 1 \<longrightarrow> fst (snd (snd e)) = 0)"
  shows "\<exists>a'. saline_loop X tau ppi es a = Inr a'"
  using es
proof (induction es arbitrary: a)
  case Nil
  show ?case by simp
next
  case (Cons e es)
  obtain i j k gi where e: "e = (i, j, k, gi)"
    by (cases e) auto
  have c: "1 \<le> i" "i \<le> I" "j \<le> J" "k \<le> K" "i = 1 \<longrightarrow> k = 0"
    using Cons.prems by (simp_all add: e)
  have "\<exists>a'. saline_step X tau ppi a (i, j, k, gi) = Inr a'"
    using c I by (intro saline_step_ok X PX PT PP) simp_all
  then obtain a1 where "saline_step X tau ppi a e = Inr a1"
    unfolding e by blast
  moreover have "\<exists>a'. saline_loop X tau ppi es a1 = Inr a'"
    using Cons.prems by (intro Cons.IH) simp
  ultimately show ?case by simp
qed

lemma saline_loop_append:
  "saline_loop X tau ppi (es @ fs) a = bnd (saline_loop X tau ppi es a) (saline_loop X tau ppi fs)"
proof (induction es arbitrary: a)
  case Nil
  show ?case by simp
next
  case (Cons e es)
  show ?case
    by (cases "saline_step X tau ppi a e") (simp_all add: Cons.IH)
qed

lemma saline_table_bounds:
  "\<forall>e \<in> set saline_table. 1 \<le> fst e \<and> fst e \<le> 7 \<and> fst (snd e) \<le> 6 \<and>
     fst (snd (snd e)) \<le> 5 \<and> (fst e = 1 \<longrightarrow> fst (snd (snd e)) = 0)"
  by (simp add: saline_table_def saline_I_def saline_J_def saline_K_def saline_G_def)

lemma saline_table_split:
  "saline_table =
    [(1, 0, 0, 5812.81456626732), (2, 0, 0, 1416.27648484197), (3, 0, 0, - 2432.14662381794),
     (4, 0, 0, 2025.80115603697), (5, 0, 0, - 1091.66841042967), (6, 0, 0, 374.601237877840),
     (7, 0, 0, - 48.5891069025409), (1, 1, 0, 851.226734946706), (2, 1, 0, 168.072408311545),
     (3, 1, 0, - 493.407510141682), (4, 1, 0, 543.835333000098), (5, 1, 0, - 196.028306689776),
     (6, 1, 0, 36.7571622995805), (2, 2, 0, 880.031352997204), (3, 2, 0, - 43.0664675978042),
     (4, 2, 0, - 68.5572509204491), (2, 3, 0, - 225.267649263401), (3, 3, 0, - 10.0227370861875),
     (4, 3, 0, 49.3667694856254), (2, 4, 0, 91.4260447751259), (3, 4, 0, 0.875600661808945),
     (4, 4, 0, - 17.1397577419788), (2, 5, 0, - 21.6603240875311), (4, 5, 0, 2.49697009569508)]
    @ (2, 6, 0, 2.13016970847183) # drop 25 saline_table"
  by (simp add: saline_table_def saline_I_def saline_J_def saline_K_def saline_G_def)

lemma saline_table_first: "saline_table = (1, 0, 0, 5812.81456626732) # tl saline_table"
  by (simp add: saline_table_def saline_I_def saline_J_def saline_K_def saline_G_def)

lemma saline_step_log_zero: "saline_step 0 tau ppi a (Suc 0, j, k, gi) = Inl ValueError"
  by (simp add: saline_step_def flog_def)

lemma saline_loop_zero: "saline_loop 0 tau ppi saline_table a = Inl ValueError"
  by (subst saline_table_first) (simp add: saline_step_log_zero)

lemma table_log:
  "\<forall>e \<in> set saline_table. fst e = 1 \<longrightarrow> fst (snd e) \<le> 1 \<and> fst (snd (snd e)) = 0"
  by (simp add: saline_table_def saline_I_def saline_J_def saline_K_def saline_G_def)

lemma saline_step_log_entry:
  assumes "j \<le> 1" and "saline_step X tau ppi a (Suc 0, j, 0, gi) = Inr a'"
  shows "s_gp a' = s_gp a \<and> s_gsp a' = s_gsp a \<and> s_gtt a' = s_gtt a \<and>
         s_gtp a' = s_gtp a \<and> s_gpp a' = s_gpp a \<and>
         0 < X \<and>
         s_g a' = s_g a + gi * (X ^ 2 * ln X) * tau ^ j \<and>
         s_gs a' = s_gs a + gi * (2 * ln X + 1) * tau ^ j \<and>
         s_gt a' = s_gt a + (if j = 1 then gi * (X ^ 2 * ln X) else 0)"
proof -
  note step = assms(2) [unfolded saline_step_def prod.case]
  obtain x2 where x2: "fpow X 2 = Inr x2"
    using step by (cases "fpow X 2") simp_all
  obtain l where l: "flog X = Inr l"
    using step x2 by (cases "flog X") simp_all
  obtain t where t: "fpow tau (int j) = Inr t"
    using step x2 l by (cases "fpow tau (int j)") simp_all
  have v: "x2 = X ^ 2" "t = tau ^ j"
    using fpow_eq_Inr [OF x2] fpow_eq_Inr [OF t] by simp_all
  have X: "0 < X" "l = ln X"
    using l by (auto simp: flog_def split: if_splits)
  consider "j = 0" | "j = 1"
    using assms(1) by linarith
  then show ?thesis
  proof cases
    case 1
    then show ?thesis
      using step x2 l t X v by auto
  next
    case 2
    then show ?thesis
      using step x2 l t X v by auto
  qed
qed

lemma saline_step_overflow:
  assumes "0 < X" "X \<le> 1" "10 ^ 58 \<le> tau"
  shows "saline_step X tau ppi a (2, 6, 0, gi) = Inl OverflowError"
proof -
  have "\<not> float_overflows (X powi 2)"
    using assms(1,2) by (intro power_no_overflow [where B = 1 and N = 2]) simp_all
  then have x: "fpow X 2 = Inr (X powi 2)"
    by (intro fpow_ok) simp_all
  have "(10 ^ 58) ^ 6 \<le> tau ^ 6"
    using assms(3) by (intro power_mono) simp_all
  then have "float_overflows (tau powi 6)"
    by (simp add: float_overflows_def)
  then have t: "fpow tau 6 = Inl OverflowError"
    by (simp add: fpow_def)
  show ?thesis
    by (simp add: saline_step_def pows_def x t)
qed

lemma saline_overflow:
  assumes S: "0 < S" "S \<le> S_ref"
      and T: "10 ^ 58 \<le> (T - 273.15) / 40" "(T - 273.15) / 40 \<le> 10 ^ 59"
      and P: "\<bar>(P - 0.101325) / 100\<bar> \<le> 1"
  shows "saline T P S = Inl OverflowError"
proof -
  define X where "X = sqrt (S / S_ref)"
  define tau where "tau = (T - 273.15) / 40"
  define ppi where "ppi = (P - 0.101325) / 100"
  have q: "0 < S / S_ref" "S / S_ref \<le> 1"
    using S S_ref_pos by simp_all
  then have X: "0 < X" "X \<le> 1"
    by (simp_all add: X_def)
  have tau: "10 ^ 58 \<le> tau" "\<bar>tau\<bar> \<le> 10 ^ 59"
    using T by (simp_all add: tau_def)
  have sums: "saline_sums T P S = saline_loop X tau ppi saline_table acc8_zero"
    using S(1) q(1) by (simp add: saline_sums_def pow_half_def Let_def X_def tau_def ppi_def)
  let ?pre = "[(1, 0, 0, 5812.81456626732), (2, 0, 0, 1416.27648484197), (3, 0, 0, - 2432.14662381794),
     (4, 0, 0, 2025.80115603697), (5, 0, 0, - 1091.66841042967), (6, 0, 0, 374.601237877840),
     (7, 0, 0, - 48.5891069025409), (1, 1, 0, 851.226734946706), (2, 1, 0, 168.072408311545),
     (3, 1, 0, - 493.407510141682), (4, 1, 0, 543.835333000098), (5, 1, 0, - 196.028306689776),
     (6, 1, 0, 36.7571622995805), (2, 2, 0, 880.031352997204), (3, 2, 0, - 43.0664675978042),
     (4, 2, 0, - 68.5572509204491), (2, 3, 0, - 225.267649263401), (3, 3, 0, - 10.0227370861875),
     (4, 3, 0, 49.3667694856254), (2, 4, 0, 91.4260447751259), (3, 4, 0, 0.875600661808945),
     (4, 4, 0, - 17.1397577419788), (2, 5, 0, - 21.6603240875311), (4, 5, 0, 2.49697009569508)]
     :: (nat \<times> nat \<times> nat \<times> real) list"
  have "\<exists>a1. saline_loop X tau ppi ?pre acc8_zero = Inr a1"
  proof (rule saline_loop_ok [where I = 7 and J = 5 and K = 0])
    show "0 < X" by (rule X)
    show "(2::nat) \<le> 7" by simp
    show "\<not> float_overflows (X powi n)" if "0 \<le> n" "n \<le> int 7" for n
      using X that by (intro power_no_overflow [where B = 1 and N = 7]) simp_all
    show "\<not> float_overflows (tau powi n)" if "0 \<le> n" "n \<le> int 5" for n
      using tau that by (intro power_no_overflow [where B = "10 ^ 59" and N = 5]) simp_all
    show "\<not> float_overflows (ppi powi n)" if "0 \<le> n" "n \<le> int 0" for n
      using that by (simp add: float_overflows_def)
    show "\<forall>e \<in> set ?pre. 1 \<le> fst e \<and> fst e \<le> 7 \<and> fst (snd e) \<le> 5 \<and>
        fst (snd (snd e)) \<le> 0 \<and> (fst e = 1 \<longrightarrow> fst (snd (snd e)) = 0)"
      by simp
  qed
  then obtain a1 where pre: "saline_loop X tau ppi ?pre acc8_zero = Inr a1"
    by blast
  let ?rest = "(2, 6, 0, 2.13016970847183) # drop 25 saline_table"
  have "saline_loop X tau ppi saline_table acc8_zero =
      saline_loop X tau ppi (?pre @ ?rest) acc8_zero"
    by (subst saline_table_split) (rule refl)
  also have "\<dots> = bnd (saline_loop X tau ppi ?pre acc8_zero) (saline_loop X tau ppi ?rest)"
    by (rule saline_loop_append)
  also have "\<dots> = saline_loop X tau ppi ?rest a1"
    by (simp only: pre bnd_Inr)
  also have "\<dots> = Inl OverflowError"
    by (simp only: saline_loop.simps saline_step_overflow [OF X tau(1)] bnd_Inl)
  finally have "saline_loop X tau ppi saline_table acc8_zero = Inl OverflowError" .
  then show ?thesis
    by (simp add: saline_def sums)
qed

lemma saline_of_sums:
  assumes "saline_sums T P S = Inr a"
  shows "\<exists>d. saline T P S = Inr d \<and>
      map fst d = [''g'', ''gt'', ''gp'', ''gtt'', ''gtp'', ''gpp'', ''gs'', ''gsp'']"
  using assms by (simp add: saline_def)

lemma saline_bounded:
  assumes S: "0 < S" "S \<le> 1" and T: "\<bar>T\<bar> \<le> 10 ^ 50" and P: "\<bar>P\<bar> \<le> 10 ^ 50"
  shows "\<exists>a. saline_sums T P S = Inr a"
proof -
  define X where "X = sqrt (S / S_ref)"
  define tau where "tau = (T - 273.15) / 40"
  define ppi where "ppi = (P - 0.101325) / 100"
  have q: "0 < S / S_ref"
    using S S_ref_pos by simp
  have "S / S_ref \<le> 5 ^ 2"
    using S by (simp add: S_ref_def field_simps)
  then have "sqrt (S / S_ref) \<le> sqrt (5 ^ 2)"
    by (rule real_sqrt_le_mono)
  then have X: "0 < X" "\<bar>X\<bar> \<le> 5"
    using q by (simp_all add: X_def)
  have tau: "\<bar>tau\<bar> \<le> 10 ^ 50"
    using T by (simp add: tau_def abs_le_iff)
  have ppi: "\<bar>ppi\<bar> \<le> 10 ^ 50"
    using P by (simp add: ppi_def abs_le_iff)
  have sums: "saline_sums T P S = saline_loop X tau ppi saline_table acc8_zero"
    using S(1) q by (simp add: saline_sums_def pow_half_def Let_def X_def tau_def ppi_def)
  have "\<exists>a. saline_loop X tau ppi saline_table acc8_zero = Inr a"
  proof (rule saline_loop_ok [where I = 7 and J = 6 and K = 5])
    show "0 < X" by (rule X)
    show "(2::nat) \<le> 7" by simp
    show "\<not> float_overflows (X powi n)" if "0 \<le> n" "n \<le> int 7" for n
      using X that by (intro power_no_overflow [where B = 5 and N = 7]) simp_all
    show "\<not> float_overflows (tau powi n)" if "0 \<le> n" "n \<le> int 6" for n
      using tau that by (intro power_no_overflow [where B = "10 ^ 50" and N = 6]) simp_all
    show "\<not> float_overflows (ppi powi n)" if "0 \<le> n" "n \<le> int 5" for n
      using ppi that by (intro power_no_overflow [where B = "10 ^ 50" and N = 5]) simp_all
    show "\<forall>e \<in> set saline_table. 1 \<le> fst e \<and> fst e \<le> 7 \<and> fst (snd e) \<le> 6 \<and>
        fst (snd (snd e)) \<le> 5 \<and> (fst e = 1 \<longrightarrow> fst (snd (snd e)) = 0)"
      by (rule saline_table_bounds)
  qed
  then show ?thesis
    by (simp add: sums)
qed

lemma attrs_setattr [simp]:
  "attrs (setattr self k v) k' = (if k' = k then Some v else attrs self k')"
  by (simp add: setattr_def)

lemma fields_setattr [simp]:
  "kwargs (setattr self k v) = kwargs self"
  "status (setattr self k v) = status self"
  "msg (setattr self k v) = msg self"
  by (simp_all add: setattr_def)

lemma water_shape:
  assumes "water IAPWS95 T P = Inr pw"
  shows "\<exists>g gt gp gtt gtp gpp. pw = dict8 g gt gp gtt gtp gpp 0 0"
  using assms unfolding water_def bnd_eq_Inr sum.inject dict8_def by blast

lemma waterSupp_shape: "\<exists>g gt gp gtt gtp gpp. waterSupp T P = dict8 g gt gp gtt gtp gpp 0 0"
  unfolding waterSupp_def dict8_def Let_def by blast

lemma pure_water_shape:
  assumes "pure_water IAPWS95 fast T P = Inr pw"
  shows "\<exists>g gt gp gtt gtp gpp. pw = dict8 g gt gp gtt gtp gpp 0 0"
proof (cases "fast \<and> T \<le> 313.15")
  case True
  then have "pw = waterSupp T P"
    using assms by (simp add: pure_water_def)
  then show ?thesis
    using waterSupp_shape by simp
next
  case False
  then have "water IAPWS95 T P = Inr pw"
    using assms by (auto simp: pure_water_def)
  then show ?thesis
    by (rule water_shape)
qed

lemma saline_shape:
  assumes "saline T P S = Inr ps"
  shows "\<exists>g gt gp gtt gtp gpp gs gsp. ps = dict8 g gt gp gtt gtp gpp gs gsp"
  using assms unfolding saline_def bnd_eq_Inr sum.inject dict8_def by blast

lemma getitem_dict8 [simp]:
  "getitem (dict8 g gt gp gtt gtp gpp gs gsp) ''g'' = Inr g"
  "getitem (dict8 g gt gp gtt gtp gpp gs gsp) ''gt'' = Inr gt"
  "getitem (dict8 g gt gp gtt gtp gpp gs gsp) ''gp'' = Inr gp"
  "getitem (dict8 g gt gp gtt gtp gpp gs gsp) ''gtt'' = Inr gtt"
  "getitem (dict8 g gt gp gtt gtp gpp gs gsp) ''gtp'' = Inr gtp"
  "getitem (dict8 g gt gp gtt gtp gpp gs gsp) ''gpp'' = Inr gpp"
  "getitem (dict8 g gt gp gtt gtp gpp gs gsp) ''gs'' = Inr gs"
  "getitem (dict8 g gt gp gtt gtp gpp gs gsp) ''gsp'' = Inr gsp"
  by (simp_all add: getitem_def dict8_def)

lemma keys_dict8:
  "map fst (dict8 g gt gp gtt gtp gpp gs gsp) =
     [''g'', ''gt'', ''gp'', ''gtt'', ''gtp'', ''gpp'', ''gs'', ''gsp'']"
  by (simp add: dict8_def)

lemma sum_loop_dict8:
  "sum_loop [''g'', ''gt'', ''gp'', ''gtt'', ''gtp'', ''gpp'', ''gs'', ''gsp'']
     (dict8 a1 a2 a3 a4 a5 a6 a7 a8) (dict8 b1 b2 b3 b4 b5 b6 b7 b8) ([], self) =
   Inr (dict8 (a1 + b1) (a2 + b2) (a3 + b3) (a4 + b4) (a5 + b5) (a6 + b6) (a7 + b7) (a8 + b8),
        setattr (setattr (setattr (setattr (setattr (setattr (setattr (setattr self
          ''g'' (PFloat (a1 + b1))) ''gt'' (PFloat (a2 + b2))) ''gp'' (PFloat (a3 + b3)))
          ''gtt'' (PFloat (a4 + b4))) ''gtp'' (PFloat (a5 + b5))) ''gpp'' (PFloat (a6 + b6)))
          ''gs'' (PFloat (a7 + b7))) ''gsp'' (PFloat (a8 + b8)))"
  by (simp add: Let_def getitem_def dict8_def)

lemma fmul_pow_half:
  "fmul a (pow_half r) =
     Inr (if 0 \<le> r then PFloat (a * sqrt r) else PComplex (complex_of_real a * csqrt (complex_of_real r)))"
  by (simp add: pow_half_def complex_eq_iff)

lemma derived_outputs_dict8:
  "derived_outputs T P (dict8 g gt gp gtt gtp gpp gs gsp) self =
    (if gp = 0 \<or> gtt = 0 \<or> gtp ^ 2 - gtt * 1000 * gpp * 0.000001 = 0
     then Inl ZeroDivisionError
     else Inr (setattr (setattr (setattr (setattr (setattr (setattr (setattr
        (setattr (setattr (setattr (setattr (setattr (setattr (setattr self
          ''T'' (PFloat T))
          ''P'' (PFloat P))
          ''rho'' (PFloat (1 / gp)))
          ''v'' (PFloat gp))
          ''s'' (PFloat (- gt)))
          ''cp'' (PFloat (- T * gtt)))
          ''h'' (PFloat (g - T * gt)))
          ''u'' (PFloat (g - T * gt - P * 1000 * gp)))
          ''a'' (PFloat (g - P * 1000 * gp)))
          ''alfa'' (PFloat (gtp / gp)))
          ''betas'' (PFloat (- gtp / gtt)))
          ''kt'' (PFloat (- gpp / gp)))
          ''ks'' (PFloat ((gtp ^ 2 - gt * gpp) / gp / gtt)))
          ''w'' (let r = gtt * 1000 / (gtp ^ 2 - gtt * 1000 * gpp * 0.000001)
                 in if 0 \<le> r then PFloat (gp * sqrt r)
                    else PComplex (complex_of_real gp * csqrt (complex_of_real r)))))"
  unfolding derived_outputs_def getitem_dict8 bnd_Inr fmul_pow_half Let_def
  by (simp add: fdiv_def del: of_real_mult of_real_divide of_real_power of_real_diff)

lemma salinity_outputs_dict8:
  "salinity_outputs T S m (dict8 g gt gp gtt gtp gpp gs gsp) (dict8 b1 b2 b3 b4 b5 b6 b7 b8) self =
    (if S \<noteq> 0
     then if m = 0 \<or> T = 0 \<or> gp = 0 then Inl ZeroDivisionError
          else Inr (setattr (setattr (setattr (setattr (setattr self
              ''mu'' (PFloat gs))
              ''muw'' (PFloat (g - S * gs)))
              ''mus'' (PFloat (g + (1 - S) * gs)))
              ''osm'' (PFloat (- (b1 - S * gs) / m / Rm / T)))
              ''haline'' (PFloat (- gsp / gp)))
     else Inr (setattr (setattr (setattr (setattr (setattr self
              ''mu'' PNone) ''muw'' PNone) ''mus'' PNone) ''osm'' PNone) ''haline'' PNone))"
  unfolding salinity_outputs_def getitem_dict8 bnd_Inr
  by (simp add: fdiv_def mult.assoc)

lemma calculo_body_Inr:
  assumes "calculo_body IAPWS95 self T P S = Inr obj"
  obtains a1 a2 a3 a4 a5 a6 b1 b2 b3 b4 b5 b6 b7 b8 self1 where
    "pure_water IAPWS95 (kw_fast (kwargs self)) T P = Inr (dict8 a1 a2 a3 a4 a5 a6 0 0)"
    "saline T P S = Inr (dict8 b1 b2 b3 b4 b5 b6 b7 b8)"
    "S \<noteq> 1"
    "derived_outputs T P (dict8 (a1 + b1) (a2 + b2) (a3 + b3) (a4 + b4) (a5 + b5) (a6 + b6) b7 b8)
       (summed self (a1 + b1) (a2 + b2) (a3 + b3) (a4 + b4) (a5 + b5) (a6 + b6) b7 b8) = Inr self1"
    "salinity_outputs T S (S / (1 - S) / Ms)
       (dict8 (a1 + b1) (a2 + b2) (a3 + b3) (a4 + b4) (a5 + b5) (a6 + b6) b7 b8)
       (dict8 b1 b2 b3 b4 b5 b6 b7 b8) self1 = Inr obj"
proof -
  from assms obtain q pw ps st self1 where
    q: "fdiv S (1 - S) = Inr q" and
    pw: "pure_water IAPWS95 (kw_fast (kwargs self)) T P = Inr pw" and
    ps: "saline T P S = Inr ps" and
    st: "sum_loop (map fst pw) pw ps ([], self) = Inr st" and
    d: "derived_outputs T P (fst st) (snd st) = Inr self1" and
    s: "salinity_outputs T S (q / Ms) (fst st) ps self1 = Inr obj"
    unfolding calculo_body_def bnd_eq_Inr Let_def by blast
  from q have S1: "S \<noteq> 1" and qv: "q = S / (1 - S)"
    by (simp_all add: fdiv_eq_Inr)
  from pw obtain a1 a2 a3 a4 a5 a6 where pw8: "pw = dict8 a1 a2 a3 a4 a5 a6 0 0"
    using pure_water_shape by blast
  from ps obtain b1 b2 b3 b4 b5 b6 b7 b8 where ps8: "ps = dict8 b1 b2 b3 b4 b5 b6 b7 b8"
    using saline_shape by blast
  have st8: "st = (dict8 (a1 + b1) (a2 + b2) (a3 + b3) (a4 + b4) (a5 + b5) (a6 + b6) b7 b8,
       summed self (a1 + b1) (a2 + b2) (a3 + b3) (a4 + b4) (a5 + b5) (a6 + b6) b7 b8)"
    using st unfolding pw8 ps8 keys_dict8 sum_loop_dict8 summed_def by simp
  show thesis
    using that [of a1 a2 a3 a4 a5 a6 b1 b2 b3 b4 b5 b6 b7 b8 self1] pw ps S1 d s
    unfolding pw8 ps8 st8 qv by simp
qed

lemma waterSupp_sums_origin:
  "waterSupp_sums 0 0 =
    \<lparr>w_g = 101.342743139674, w_gt = 5.90578347909402, w_gp = 100015.695367145,
     w_gtt = - 24715.5718660780, w_gtp = - 270.983805184062, w_gpp = - 5089.15308407260\<rparr>"
  by (simp add: waterSupp_sums_def waterSupp_J_def waterSupp_K_def waterSupp_G_def
      waterSupp_step_def acc6_zero_def Let_def)

lemma saline_loop_origin:
  "saline_loop 1 0 0 saline_table acc8_zero =
    Inr \<lparr>s_g = 244.2747376066291, s_gt = 59.2290867797655, s_gp = - 3129.7954311666691,
         s_gtt = 1536.8152689579014, s_gtp = 531.1561326972161, s_gpp = 656.83624452268578,
         s_gs = 5901.2739154462237, s_gsp = - 6061.6298272826888\<rparr>"
  by (simp add: saline_table_def saline_I_def saline_J_def saline_K_def saline_G_def
      saline_step_def pows_def flog_def acc8_zero_def)

lemma saline_sums_origin:
  "saline_sums 273.15 0.101325 S_ref =
    Inr \<lparr>s_g = 244.2747376066291, s_gt = 59.2290867797655, s_gp = - 3129.7954311666691,
         s_gtt = 1536.8152689579014, s_gtp = 531.1561326972161, s_gpp = 656.83624452268578,
         s_gs = 5901.2739154462237, s_gsp = - 6061.6298272826888\<rparr>"
proof -
  have "S_ref \<noteq> 0" by (simp add: S_ref_def)
  then show ?thesis
    unfolding saline_sums_def Let_def using saline_loop_origin
    by (simp add: pow_half_def)
qed

lemma waterSupp_origin:
  "waterSupp 273.15 0.101325 =
    dict8 (50671371569837 / 500000000000000)
      (295289173954701 / 2000000000000000000)
      (20003139073429 / 20000000000000000)
      (- (12357785933039 / 800000000000000))
      (- (135491902592031 / 2000000000000000000000))
      (- (25445765420363 / 50000000000000000000))
      0 0"
  unfolding waterSupp_def Let_def dict8_def
  by (simp add: waterSupp_sums_origin)

lemma saline_origin:
  "saline 273.15 0.101325 S_ref =
    Inr (dict8 (2442747376066291 / 10000000000000000)
      (118458173559531 / 80000000000000000)
      (- (31297954311666691 / 1000000000000000000000))
      (7684076344789507 / 8000000000000000000)
      (5311561326972161 / 40000000000000000000000)
      (32841812226134289 / 500000000000000000000000)
      (413089174081235659 / 5626406400000000)
      (- (53039260988723527 / 70330080000000000000)))"
  unfolding saline_def dict8_def saline_sums_origin bnd_Inr
  by (simp add: S_ref_def)

lemma calculo_body_origin:
  assumes "kw_fast (kwargs self)"
  shows "\<exists>obj. calculo_body IAPWS95 self 273.15 0.101325 S_ref = Inr obj"
proof -
  have pw: "pure_water IAPWS95 (kw_fast (kwargs self)) 273.15 0.101325 =
      Inr (waterSupp 273.15 0.101325)"
    using assms by (simp add: pure_water_def)
  have q: "fdiv S_ref (1 - S_ref) = Inr (S_ref / (1 - S_ref))"
    by (simp add: fdiv_def S_ref_def)
  have m: "S_ref / (1 - S_ref) / Ms \<noteq> 0" and S: "S_ref \<noteq> 0"
    by (simp_all add: S_ref_def Ms_def)
  show ?thesis
    unfolding calculo_body_def pw q bnd_Inr Let_def waterSupp_origin saline_origin
      keys_dict8 sum_loop_dict8 fst_conv snd_conv derived_outputs_dict8 salinity_outputs_dict8
    using m S by (simp add: power2_eq_square)
qed

lemma calculo_Inr:
  assumes "calculo IAPWS95 self = Inr obj"
  obtains T P S where "kw_T (kwargs self) = Some T" "kw_P (kwargs self) = Some P"
    "kw_S (kwargs self) = Some S" "calculo_body IAPWS95 self T P S = Inr obj"
  using assms by (auto simp: calculo_def split: option.splits)

lemma calculo_body_explicit:
  assumes "calculo_body IAPWS95 self T P S = Inr obj"
  obtains a1 a2 a3 a4 a5 a6 b1 b2 b3 b4 b5 b6 b7 b8 g gt gp gtt gtp gpp self1 where
    "pure_water IAPWS95 (kw_fast (kwargs self)) T P = Inr (dict8 a1 a2 a3 a4 a5 a6 0 0)"
    "saline T P S = Inr (dict8 b1 b2 b3 b4 b5 b6 b7 b8)"
    "g = a1 + b1" "gt = a2 + b2" "gp = a3 + b3" "gtt = a4 + b4" "gtp = a5 + b5" "gpp = a6 + b6"
    "S \<noteq> 1" "gp \<noteq> 0" "gtt \<noteq> 0" "gtp ^ 2 - gtt * 1000 * gpp * 0.000001 \<noteq> 0"
    "S \<noteq> 0 \<longrightarrow> T \<noteq> 0"
    "self1 = setattr (setattr (setattr (setattr (setattr (setattr (setattr
        (setattr (setattr (setattr (setattr (setattr (setattr (setattr
          (summed self g gt gp gtt gtp gpp b7 b8)
          ''T'' (PFloat T))
          ''P'' (PFloat P))
          ''rho'' (PFloat (1 / gp)))
          ''v'' (PFloat gp))
          ''s'' (PFloat (- gt)))
          ''cp'' (PFloat (- T * gtt)))
          ''h'' (PFloat (g - T * gt)))
          ''u'' (PFloat (g - T * gt - P * 1000 * gp)))
          ''a'' (PFloat (g - P * 1000 * gp)))
          ''alfa'' (PFloat (gtp / gp)))
          ''betas'' (PFloat (- gtp / gtt)))
          ''kt'' (PFloat (- gpp / gp)))
          ''ks'' (PFloat ((gtp ^ 2 - gt * gpp) / gp / gtt)))
          ''w'' (let r = gtt * 1000 / (gtp ^ 2 - gtt * 1000 * gpp * 0.000001)
                 in if 0 \<le> r then PFloat (gp * sqrt r)
                    else PComplex (complex_of_real gp * csqrt (complex_of_real r)))"
    "obj = (if S \<noteq> 0
       then setattr (setattr (setattr (setattr (setattr self1
              ''mu'' (PFloat b7))
              ''muw'' (PFloat (g - S * b7)))
              ''mus'' (PFloat (g + (1 - S) * b7)))
              ''osm'' (PFloat (- (b1 - S * b7) / (S / (1 - S) / Ms) / Rm / T)))
              ''haline'' (PFloat (- b8 / gp))
       else setattr (setattr (setattr (setattr (setattr self1
              ''mu'' PNone) ''muw'' PNone) ''mus'' PNone) ''osm'' PNone) ''haline'' PNone)"
proof -
  from assms obtain a1 a2 a3 a4 a5 a6 b1 b2 b3 b4 b5 b6 b7 b8 self1 where
    pw: "pure_water IAPWS95 (kw_fast (kwargs self)) T P = Inr (dict8 a1 a2 a3 a4 a5 a6 0 0)" and
    ps: "saline T P S = Inr (dict8 b1 b2 b3 b4 b5 b6 b7 b8)" and
    S1: "S \<noteq> 1" and
    d: "derived_outputs T P (dict8 (a1 + b1) (a2 + b2) (a3 + b3) (a4 + b4) (a5 + b5) (a6 + b6) b7 b8)
       (summed self (a1 + b1) (a2 + b2) (a3 + b3) (a4 + b4) (a5 + b5) (a6 + b6) b7 b8) = Inr self1" and
    s: "salinity_outputs T S (S / (1 - S) / Ms)
       (dict8 (a1 + b1) (a2 + b2) (a3 + b3) (a4 + b4) (a5 + b5) (a6 + b6) b7 b8)
       (dict8 b1 b2 b3 b4 b5 b6 b7 b8) self1 = Inr obj"
    by (rule calculo_body_Inr)
  note d' = d [unfolded derived_outputs_dict8]
  note s' = s [unfolded salinity_outputs_dict8]
  have nz: "a3 + b3 \<noteq> 0" "a4 + b4 \<noteq> 0"
      "(a5 + b5) ^ 2 - (a4 + b4) * 1000 * (a6 + b6) * 0.000001 \<noteq> 0"
    using d' by (auto split: if_splits)
  have T0: "S \<noteq> 0 \<longrightarrow> T \<noteq> 0"
    using s' by (auto split: if_splits)
  have self1: "self1 = setattr (setattr (setattr (setattr (setattr (setattr (setattr
        (setattr (setattr (setattr (setattr (setattr (setattr (setattr
          (summed self (a1 + b1) (a2 + b2) (a3 + b3) (a4 + b4) (a5 + b5) (a6 + b6) b7 b8)
          ''T'' (PFloat T))
          ''P'' (PFloat P))
          ''rho'' (PFloat (1 / (a3 + b3))))
          ''v'' (PFloat (a3 + b3)))
          ''s'' (PFloat (- (a2 + b2))))
          ''cp'' (PFloat (- T * (a4 + b4))))
          ''h'' (PFloat ((a1 + b1) - T * (a2 + b2))))
          ''u'' (PFloat ((a1 + b1) - T * (a2 + b2) - P * 1000 * (a3 + b3))))
          ''a'' (PFloat ((a1 + b1) - P * 1000 * (a3 + b3))))
          ''alfa'' (PFloat ((a5 + b5) / (a3 + b3))))
          ''betas'' (PFloat (- (a5 + b5) / (a4 + b4))))
          ''kt'' (PFloat (- (a6 + b6) / (a3 + b3))))
          ''ks'' (PFloat (((a5 + b5) ^ 2 - (a2 + b2) * (a6 + b6)) / (a3 + b3) / (a4 + b4))))
          ''w'' (let r = (a4 + b4) * 1000 / ((a5 + b5) ^ 2 - (a4 + b4) * 1000 * (a6 + b6) * 0.000001)
                 in if 0 \<le> r then PFloat ((a3 + b3) * sqrt r)
                    else PComplex (complex_of_real (a3 + b3) * csqrt (complex_of_real r)))"
    using d' nz by (simp only: if_False simp_thms sum.inject)
  have obj: "obj = (if S \<noteq> 0
       then setattr (setattr (setattr (setattr (setattr self1
              ''mu'' (PFloat b7))
              ''muw'' (PFloat ((a1 + b1) - S * b7)))
              ''mus'' (PFloat ((a1 + b1) + (1 - S) * b7)))
              ''osm'' (PFloat (- (b1 - S * b7) / (S / (1 - S) / Ms) / Rm / T)))
              ''haline'' (PFloat (- b8 / (a3 + b3)))
       else setattr (setattr (setattr (setattr (setattr self1
              ''mu'' PNone) ''muw'' PNone) ''mus'' PNone) ''osm'' PNone) ''haline'' PNone)"
    using s' by (auto split: if_splits)
  show thesis
    by (rule that [OF pw ps refl refl refl refl refl refl S1 nz T0 self1 obj])
qed

lemma calculo_body_fields:
  assumes "calculo_body IAPWS95 self T P S = Inr obj"
  shows "kwargs obj = kwargs self \<and> status obj = status self \<and> msg obj = msg self \<and>
         attrs obj ''S'' = attrs self ''S'' \<and>
         attrs obj ''T'' = Some (PFloat T) \<and> attrs obj ''P'' = Some (PFloat P) \<and>
         attrs obj ''rho'' \<noteq> None"
proof -
  from assms obtain b1 b7 b8 g gt gp gtt gtp gpp self1 where
    self1: "self1 = setattr (setattr (setattr (setattr (setattr (setattr (setattr
        (setattr (setattr (setattr (setattr (setattr (setattr (setattr
          (summed self g gt gp gtt gtp gpp b7 b8)
          ''T'' (PFloat T))
          ''P'' (PFloat P))
          ''rho'' (PFloat (1 / gp)))
          ''v'' (PFloat gp))
          ''s'' (PFloat (- gt)))
          ''cp'' (PFloat (- T * gtt)))
          ''h'' (PFloat (g - T * gt)))
          ''u'' (PFloat (g - T * gt - P * 1000 * gp)))
          ''a'' (PFloat (g - P * 1000 * gp)))
          ''alfa'' (PFloat (gtp / gp)))
          ''betas'' (PFloat (- gtp / gtt)))
          ''kt'' (PFloat (- gpp / gp)))
          ''ks'' (PFloat ((gtp ^ 2 - gt * gpp) / gp / gtt)))
          ''w'' (let r = gtt * 1000 / (gtp ^ 2 - gtt * 1000 * gpp * 0.000001)
                 in if 0 \<le> r then PFloat (gp * sqrt r)
                    else PComplex (complex_of_real gp * csqrt (complex_of_real r)))" and
    obj: "obj = (if S \<noteq> 0
       then setattr (setattr (setattr (setattr (setattr self1
              ''mu'' (PFloat b7))
              ''muw'' (PFloat (g - S * b7)))
              ''mus'' (PFloat (g + (1 - S) * b7)))
              ''osm'' (PFloat (- (b1 - S * b7) / (S / (1 - S) / Ms) / Rm / T)))
              ''haline'' (PFloat (- b8 / gp))
       else setattr (setattr (setattr (setattr (setattr self1
              ''mu'' PNone) ''muw'' PNone) ''mus'' PNone) ''osm'' PNone) ''haline'' PNone)"
    by (rule calculo_body_explicit)
  show ?thesis
    unfolding obj self1 summed_def by simp
qed

lemma calculo_origin_self: "\<exists>obj. calculo IAPWS95 origin_self = Inr obj"
proof -
  have kw: "kwargs origin_self =
      \<lparr>kw_T = Some 273.15, kw_P = Some 0.101325, kw_S = Some S_ref, kw_fast = True\<rparr>"
    by (simp add: origin_self_def update_kwargs_def origin_args_def SeaWater_kwargs_def)
  have "kw_fast (kwargs origin_self)"
    by (simp add: kw)
  then obtain obj where "calculo_body IAPWS95 origin_self 273.15 0.101325 S_ref = Inr obj"
    using calculo_body_origin by blast
  then have "calculo IAPWS95 origin_self = Inr obj"
    by (simp add: calculo_def kw)
  then show ?thesis ..
qed

lemma init_origin:
  "\<exists>obj. init IAPWS95 origin_args = Inr obj \<and> status obj = 1 \<and> msg obj = [] \<and>
     attrs obj ''S'' = None \<and> kw_S (kwargs obj) = Some S_ref"
proof -
  obtain obj where c: "calculo IAPWS95 origin_self = Inr obj"
    using calculo_origin_self by blast
  obtain T P S where "calculo_body IAPWS95 origin_self T P S = Inr obj"
    using c by (rule calculo_Inr)
  then have f: "kwargs obj = kwargs origin_self" "status obj = status origin_self"
      "attrs obj ''S'' = attrs origin_self ''S''"
    using calculo_body_fields by blast+
  have S0: "S_ref \<noteq> 0" by (simp add: S_ref_def)
  have "init IAPWS95 origin_args = Inr (obj\<lparr>msg := []\<rparr>)"
    using c S0
    by (simp add: init_def call_def Let_def origin_self_def update_kwargs_def origin_args_def
        SeaWater_kwargs_def SeaWater_new_def truthy_def)
  then show ?thesis
    using f by (simp add: origin_self_def update_kwargs_def origin_args_def
        SeaWater_kwargs_def SeaWater_new_def)
qed

lemma saline_zero_dict8: "saline T P 0 = Inr (dict8 0 0 0 0 0 0 0 0)"
  by (simp add: saline_def saline_sums_def acc8_zero_def dict8_def)

lemma pure_water_fast:
  "fast \<Longrightarrow> T \<le> 313.15 \<Longrightarrow> pure_water IAPWS95 fast T P = Inr (waterSupp T P)"
  by (simp add: pure_water_def)

lemma calculo_fresh_self: "\<exists>obj. calculo IAPWS95 fresh_self = Inr obj"
proof -
  have kw: "kwargs fresh_self =
      \<lparr>kw_T = Some 273.15, kw_P = Some 0.101325, kw_S = Some 0, kw_fast = True\<rparr>"
    by (simp add: fresh_self_def update_kwargs_def fresh_args_def)
  have pw: "pure_water IAPWS95 (kw_fast (kwargs fresh_self)) 273.15 0.101325 =
      Inr (waterSupp 273.15 0.101325)"
    by (rule pure_water_fast) (simp_all add: kw)
  have q: "fdiv 0 (1 - 0) = Inr 0"
    by (simp add: fdiv_def)
  have "\<exists>obj. calculo_body IAPWS95 fresh_self 273.15 0.101325 0 = Inr obj"
    unfolding calculo_body_def pw q bnd_Inr Let_def waterSupp_origin saline_zero_dict8
      keys_dict8 sum_loop_dict8 fst_conv snd_conv derived_outputs_dict8 salinity_outputs_dict8
    by (simp add: power2_eq_square)
  then show ?thesis
    by (simp add: calculo_def kw)
qed

lemma call_incomplete:
  assumes "\<not> truthy (kw_T (update_kwargs (kwargs self) a)) \<or>
           \<not> truthy (kw_P (update_kwargs (kwargs self) a)) \<or>
           kw_S (update_kwargs (kwargs self) a) = None"
  shows "call IAPWS95 self a = Inr (self\<lparr>kwargs := update_kwargs (kwargs self) a\<rparr>)"
  using assms by (auto simp: call_def Let_def)

lemma call_complete:
  assumes "truthy (kw_T (update_kwargs (kwargs self) a))"
      and "truthy (kw_P (update_kwargs (kwargs self) a))"
      and "kw_S (update_kwargs (kwargs self) a) \<noteq> None"
  shows "call IAPWS95 self a =
      bnd (calculo IAPWS95 (self\<lparr>kwargs := update_kwargs (kwargs self) a, status := 1\<rparr>))
        (\<lambda>self2. Inr (self2\<lparr>msg := ''''\<rparr>))"
  using assms by (simp add: call_def Let_def)

lemma init_missing:
  assumes "arg_T a = None \<or> arg_P a = None \<or> arg_S a = None"
  shows "init IAPWS95 a = Inr (SeaWater_new\<lparr>kwargs := update_kwargs SeaWater_kwargs a\<rparr>)"
proof -
  have "\<not> truthy (kw_T (update_kwargs SeaWater_kwargs a)) \<or>
        \<not> truthy (kw_P (update_kwargs SeaWater_kwargs a)) \<or>
        kw_S (update_kwargs SeaWater_kwargs a) = None"
    using assms by (auto simp: update_kwargs_def SeaWater_kwargs_def truthy_def)
  then show ?thesis
    unfolding init_def by (subst call_incomplete) simp_all
qed

lemma init_supplied:
  assumes "arg_T a = Some (Some T)" "T \<noteq> 0" "arg_P a = Some (Some P)" "P \<noteq> 0"
    "arg_S a = Some (Some S)"
  shows "init IAPWS95 a =
      bnd (calculo IAPWS95 (SeaWater_new\<lparr>kwargs := update_kwargs SeaWater_kwargs a, status := 1\<rparr>))
        (\<lambda>self2. Inr (self2\<lparr>msg := ''''\<rparr>))"
proof -
  have "truthy (kw_T (update_kwargs SeaWater_kwargs a))"
    "truthy (kw_P (update_kwargs SeaWater_kwargs a))"
    "kw_S (update_kwargs SeaWater_kwargs a) \<noteq> None"
    using assms by (simp_all add: update_kwargs_def truthy_def)
  then show ?thesis
    unfolding init_def by (subst call_complete) simp_all
qed

lemma truthy_Some: "truthy v \<longleftrightarrow> (\<exists>x. v = Some x \<and> x \<noteq> 0)"
  by (cases v) (simp_all add: truthy_def)

lemma init_cases:
  assumes "init IAPWS95 a = Inr obj"
  shows "(status obj = 1 \<and> msg obj = [] \<and> attrs obj ''rho'' \<noteq> None \<and>
          (\<exists>T P S. arg_T a = Some (Some T) \<and> arg_P a = Some (Some P) \<and> arg_S a = Some (Some S))) \<or>
         (status obj = 0 \<and> msg obj = ''Undefined'' \<and> attrs obj = Map.empty)"
proof (cases "truthy (kw_T (update_kwargs SeaWater_kwargs a)) \<and>
    truthy (kw_P (update_kwargs SeaWater_kwargs a)) \<and>
    kw_S (update_kwargs SeaWater_kwargs a) \<noteq> None")
  case True
  let ?self = "SeaWater_new\<lparr>kwargs := update_kwargs SeaWater_kwargs a, status := 1\<rparr>"
  have "init IAPWS95 a = bnd (calculo IAPWS95 ?self) (\<lambda>self2. Inr (self2\<lparr>msg := ''''\<rparr>))"
    unfolding init_def using True by (subst call_complete) simp_all
  then have "bnd (calculo IAPWS95 ?self) (\<lambda>self2. Inr (self2\<lparr>msg := ''''\<rparr>)) = Inr obj"
    using assms by simp
  then obtain obj' where c: "calculo IAPWS95 ?self = Inr obj'" and o: "obj = obj'\<lparr>msg := []\<rparr>"
    unfolding bnd_eq_Inr by auto
  obtain T P S where "calculo_body IAPWS95 ?self T P S = Inr obj'"
    using c by (rule calculo_Inr)
  then have f: "status obj' = status ?self" "attrs obj' ''rho'' \<noteq> None"
    using calculo_body_fields by blast+
  have args: "\<exists>T P S. arg_T a = Some (Some T) \<and> arg_P a = Some (Some P) \<and> arg_S a = Some (Some S)"
    using True
    by (auto simp: truthy_Some update_kwargs_def SeaWater_kwargs_def split: option.splits)
  show ?thesis
    using f args by (simp add: o)
next
  case False
  then have "init IAPWS95 a = Inr (SeaWater_new\<lparr>kwargs := update_kwargs SeaWater_kwargs a\<rparr>)"
    unfolding init_def by (subst call_incomplete) auto
  then show ?thesis
    using assms by (auto simp: SeaWater_new_def)
qed

subsection \<open>The claims\<close>

text \<open>
  C1: for every input that \<^verbatim>\<open>calculo\<close> evaluates, with \<open>g, gt, gp, gtt, gtp, gpp\<close> the combined
  derivatives that it stores on the object, the denominators are not zero and
  \<open>rho = 1/gp\<close>, \<open>v = gp\<close>, \<open>s = -gt\<close>, \<open>cp = -T*gtt\<close>, \<open>h = g - T*gt\<close>,
  \<open>u = g - T*gt - 1000*P*gp\<close>, \<open>a = g - 1000*P*gp\<close>, \<open>alfa = gtp/gp\<close>, \<open>betas = -gtp/gtt\<close>,
  \<open>kt = -gpp/gp\<close>, \<open>ks = (gtp\<^sup>2 - gt*gpp)/(gp*gtt)\<close> and
  \<open>w = gp * sqrt (1000*gtt/(gtp\<^sup>2 - 1000*gtt*gpp*10\<^sup>-\<^sup>6))\<close>. The square root is the real one for a
  radicand that is not negative; for a negative radicand the power \<^verbatim>\<open>**0.5\<close> gives the
  principal complex root.
\<close>

theorem C1_composed_outputs:
  assumes "calculo IAPWS95 self = Inr obj"
  shows "\<exists>T P g gt gp gtt gtp gpp.
    kw_T (kwargs self) = Some T \<and> kw_P (kwargs self) = Some P \<and>
    attrs obj ''g'' = Some (PFloat g) \<and> attrs obj ''gt'' = Some (PFloat gt) \<and>
    attrs obj ''gp'' = Some (PFloat gp) \<and> attrs obj ''gtt'' = Some (PFloat gtt) \<and>
    attrs obj ''gtp'' = Some (PFloat gtp) \<and> attrs obj ''gpp'' = Some (PFloat gpp) \<and>
    gp \<noteq> 0 \<and> gtt \<noteq> 0 \<and> gtp ^ 2 - 1000 * gtt * gpp * (1 / 10 ^ 6) \<noteq> 0 \<and>
    attrs obj ''rho'' = Some (PFloat (1 / gp)) \<and>
    attrs obj ''v'' = Some (PFloat gp) \<and>
    attrs obj ''s'' = Some (PFloat (- gt)) \<and>
    attrs obj ''cp'' = Some (PFloat (- T * gtt)) \<and>
    attrs obj ''h'' = Some (PFloat (g - T * gt)) \<and>
    attrs obj ''u'' = Some (PFloat (g - T * gt - 1000 * P * gp)) \<and>
    attrs obj ''a'' = Some (PFloat (g - 1000 * P * gp)) \<and>
    attrs obj ''alfa'' = Some (PFloat (gtp / gp)) \<and>
    attrs obj ''betas'' = Some (PFloat (- gtp / gtt)) \<and>
    attrs obj ''kt'' = Some (PFloat (- gpp / gp)) \<and>
    attrs obj ''ks'' = Some (PFloat ((gtp ^ 2 - gt * gpp) / (gp * gtt))) \<and>
    attrs obj ''w'' = Some
      (let r = 1000 * gtt / (gtp ^ 2 - 1000 * gtt * gpp * (1 / 10 ^ 6))
       in if 0 \<le> r then PFloat (gp * sqrt r)
          else PComplex (complex_of_real gp * csqrt (complex_of_real r)))"
proof -
  from assms obtain T P S where
    kw: "kw_T (kwargs self) = Some T" "kw_P (kwargs self) = Some P" and
    body: "calculo_body IAPWS95 self T P S = Inr obj"
    by (rule calculo_Inr)
  from body obtain a1 a2 a3 a4 a5 a6 b1 b2 b3 b4 b5 b6 b7 b8 g gt gp gtt gtp gpp self1 where
    nz: "gp \<noteq> 0" "gtt \<noteq> 0" "gtp ^ 2 - gtt * 1000 * gpp * 0.000001 \<noteq> 0" and
    self1: "self1 = setattr (setattr (setattr (setattr (setattr (setattr (setattr
        (setattr (setattr (setattr (setattr (setattr (setattr (setattr
          (summed self g gt gp gtt gtp gpp b7 b8)
          ''T'' (PFloat T))
          ''P'' (PFloat P))
          ''rho'' (PFloat (1 / gp)))
          ''v'' (PFloat gp))
          ''s'' (PFloat (- gt)))
          ''cp'' (PFloat (- T * gtt)))
          ''h'' (PFloat (g - T * gt)))
          ''u'' (PFloat (g - T * gt - P * 1000 * gp)))
          ''a'' (PFloat (g - P * 1000 * gp)))
          ''alfa'' (PFloat (gtp / gp)))
          ''betas'' (PFloat (- gtp / gtt)))
          ''kt'' (PFloat (- gpp / gp)))
          ''ks'' (PFloat ((gtp ^ 2 - gt * gpp) / gp / gtt)))
          ''w'' (let r = gtt * 1000 / (gtp ^ 2 - gtt * 1000 * gpp * 0.000001)
                 in if 0 \<le> r then PFloat (gp * sqrt r)
                    else PComplex (complex_of_real gp * csqrt (complex_of_real r)))" and
    obj: "obj = (if S \<noteq> 0
       then setattr (setattr (setattr (setattr (setattr self1
              ''mu'' (PFloat b7))
              ''muw'' (PFloat (g - S * b7)))
              ''mus'' (PFloat (g + (1 - S) * b7)))
              ''osm'' (PFloat (- (b1 - S * b7) / (S / (1 - S) / Ms) / Rm / T)))
              ''haline'' (PFloat (- b8 / gp))
       else setattr (setattr (setattr (setattr (setattr self1
              ''mu'' PNone) ''muw'' PNone) ''mus'' PNone) ''osm'' PNone) ''haline'' PNone)"
    by (rule calculo_body_explicit)
  have e1: "gtt * 1000 * gpp * 0.000001 = 1000 * gtt * gpp * (1 / 10 ^ 6)"
    by simp
  have e2: "gtt * 1000 = 1000 * gtt" "P * 1000 * gp = 1000 * P * gp"
    by simp_all
  have e3: "(gtp ^ 2 - gt * gpp) / gp / gtt = (gtp ^ 2 - gt * gpp) / (gp * gtt)"
    by simp
  have a: "attrs obj k = attrs self1 k"
    if "k \<notin> {''mu'', ''muw'', ''mus'', ''osm'', ''haline''}" for k
    using that unfolding obj by simp
  have "attrs obj ''g'' = Some (PFloat g)" "attrs obj ''gt'' = Some (PFloat gt)"
    "attrs obj ''gp'' = Some (PFloat gp)" "attrs obj ''gtt'' = Some (PFloat gtt)"
    "attrs obj ''gtp'' = Some (PFloat gtp)" "attrs obj ''gpp'' = Some (PFloat gpp)"
    "attrs obj ''rho'' = Some (PFloat (1 / gp))"
    "attrs obj ''v'' = Some (PFloat gp)"
    "attrs obj ''s'' = Some (PFloat (- gt))"
    "attrs obj ''cp'' = Some (PFloat (- T * gtt))"
    "attrs obj ''h'' = Some (PFloat (g - T * gt))"
    "attrs obj ''u'' = Some (PFloat (g - T * gt - 1000 * P * gp))"
    "attrs obj ''a'' = Some (PFloat (g - 1000 * P * gp))"
    "attrs obj ''alfa'' = Some (PFloat (gtp / gp))"
    "attrs obj ''betas'' = Some (PFloat (- gtp / gtt))"
    "attrs obj ''kt'' = Some (PFloat (- gpp / gp))"
    "attrs obj ''ks'' = Some (PFloat ((gtp ^ 2 - gt * gpp) / (gp * gtt)))"
    "attrs obj ''w'' = Some
      (let r = 1000 * gtt / (gtp ^ 2 - 1000 * gtt * gpp * (1 / 10 ^ 6))
       in if 0 \<le> r then PFloat (gp * sqrt r)
          else PComplex (complex_of_real gp * csqrt (complex_of_real r)))"
    unfolding e1 [symmetric] e2 [symmetric] e3 [symmetric]
    by (simp_all only: a self1 summed_def attrs_setattr list.inject char.inject
        insert_iff empty_iff simp_thms if_True if_False list.distinct not_False_eq_True)
  moreover have "gtp ^ 2 - 1000 * gtt * gpp * (1 / 10 ^ 6) \<noteq> 0"
    using nz(3) unfolding e1 .
  ultimately show ?thesis
    using kw nz(1,2) by blast
qed

theorem C1_composed_outputs_witness:
  "\<exists>obj. calculo no_IAPWS95 origin_self = Inr obj \<and>
     (\<exists>gp. attrs obj ''gp'' = Some (PFloat gp) \<and> gp \<noteq> 0 \<and>
        attrs obj ''rho'' = Some (PFloat (1 / gp)) \<and> attrs obj ''v'' = Some (PFloat gp))"
proof -
  obtain obj where c: "calculo no_IAPWS95 origin_self = Inr obj"
    using calculo_origin_self by blast
  from C1_composed_outputs [OF c] have
    "\<exists>gp. attrs obj ''gp'' = Some (PFloat gp) \<and> gp \<noteq> 0 \<and>
        attrs obj ''rho'' = Some (PFloat (1 / gp)) \<and> attrs obj ''v'' = Some (PFloat gp)"
    by blast
  with c show ?thesis by blast
qed

text \<open>
  C2: for every \<open>T\<close> and \<open>P\<close>, the saline term at \<open>S = 0\<close> returns the dictionary of the eight
  keys \<open>g, gt, gp, gtt, gtp, gpp, gs, gsp\<close>, each with the value zero, and the loop over the
  table is not run: \<open>X\<close> is zero there, and the loop started at \<open>X = 0\<close> raises the domain
  error of \<^verbatim>\<open>log(0)\<close> at its first entry, where \<^verbatim>\<open>_saline\<close> returns normally.
\<close>

theorem C2_saline_zero_salinity:
  "pow_half (0 / S_ref) = PFloat 0 \<and>
   saline_loop 0 ((T - 273.15) / 40) ((P - 0.101325) / 100) saline_table acc8_zero = Inl ValueError \<and>
   saline_sums T P 0 = Inr acc8_zero \<and>
   saline T P 0 =
     Inr [(''g'', 0), (''gt'', 0), (''gp'', 0), (''gtt'', 0), (''gtp'', 0), (''gpp'', 0),
          (''gs'', 0), (''gsp'', 0)]"
  by (simp add: pow_half_def saline_loop_zero saline_def saline_sums_def acc8_zero_def)

text \<open>
  C3: for every input that \<^verbatim>\<open>calculo\<close> evaluates, the dictionary \<^verbatim>\<open>prop\<close> that the loop over
  the keys builds has the eight keys, and for each of them its value, which is also the
  attribute of that name, is the sum of the values of the pure-water and the saline
  dictionaries.
\<close>

theorem C3_combined_keywise_sum:
  assumes "calculo IAPWS95 self = Inr obj"
  shows "\<exists>T P S pw ps prop self1.
     kw_T (kwargs self) = Some T \<and> kw_P (kwargs self) = Some P \<and> kw_S (kwargs self) = Some S \<and>
     pure_water IAPWS95 (kw_fast (kwargs self)) T P = Inr pw \<and>
     saline T P S = Inr ps \<and>
     sum_loop (map fst pw) pw ps ([], self) = Inr (prop, self1) \<and>
     map fst prop = [''g'', ''gt'', ''gp'', ''gtt'', ''gtp'', ''gpp'', ''gs'', ''gsp''] \<and>
     (\<forall>key \<in> set [''g'', ''gt'', ''gp'', ''gtt'', ''gtp'', ''gpp'', ''gs'', ''gsp''].
        \<exists>a b. getitem pw key = Inr a \<and> getitem ps key = Inr b \<and>
              getitem prop key = Inr (a + b) \<and> attrs obj key = Some (PFloat (a + b)))"
proof -
  from assms obtain T P S where
    kw: "kw_T (kwargs self) = Some T" "kw_P (kwargs self) = Some P"
      "kw_S (kwargs self) = Some S" and
    body: "calculo_body IAPWS95 self T P S = Inr obj"
    by (rule calculo_Inr)
  from body obtain a1 a2 a3 a4 a5 a6 b1 b2 b3 b4 b5 b6 b7 b8 g gt gp gtt gtp gpp self1 where
    pw: "pure_water IAPWS95 (kw_fast (kwargs self)) T P = Inr (dict8 a1 a2 a3 a4 a5 a6 0 0)" and
    ps: "saline T P S = Inr (dict8 b1 b2 b3 b4 b5 b6 b7 b8)" and
    eqs: "g = a1 + b1" "gt = a2 + b2" "gp = a3 + b3" "gtt = a4 + b4" "gtp = a5 + b5"
      "gpp = a6 + b6" and
    self1: "self1 = setattr (setattr (setattr (setattr (setattr (setattr (setattr
        (setattr (setattr (setattr (setattr (setattr (setattr (setattr
          (summed self g gt gp gtt gtp gpp b7 b8)
          ''T'' (PFloat T))
          ''P'' (PFloat P))
          ''rho'' (PFloat (1 / gp)))
          ''v'' (PFloat gp))
          ''s'' (PFloat (- gt)))
          ''cp'' (PFloat (- T * gtt)))
          ''h'' (PFloat (g - T * gt)))
          ''u'' (PFloat (g - T * gt - P * 1000 * gp)))
          ''a'' (PFloat (g - P * 1000 * gp)))
          ''alfa'' (PFloat (gtp / gp)))
          ''betas'' (PFloat (- gtp / gtt)))
          ''kt'' (PFloat (- gpp / gp)))
          ''ks'' (PFloat ((gtp ^ 2 - gt * gpp) / gp / gtt)))
          ''w'' (let r = gtt * 1000 / (gtp ^ 2 - gtt * 1000 * gpp * 0.000001)
                 in if 0 \<le> r then PFloat (gp * sqrt r)
                    else PComplex (complex_of_real gp * csqrt (complex_of_real r)))" and
    obj: "obj = (if S \<noteq> 0
       then setattr (setattr (setattr (setattr (setattr self1
              ''mu'' (PFloat b7))
              ''muw'' (PFloat (g - S * b7)))
              ''mus'' (PFloat (g + (1 - S) * b7)))
              ''osm'' (PFloat (- (b1 - S * b7) / (S / (1 - S) / Ms) / Rm / T)))
              ''haline'' (PFloat (- b8 / gp))
       else setattr (setattr (setattr (setattr (setattr self1
              ''mu'' PNone) ''muw'' PNone) ''mus'' PNone) ''osm'' PNone) ''haline'' PNone)"
    by (rule calculo_body_explicit)
  let ?pw = "dict8 a1 a2 a3 a4 a5 a6 0 0"
  let ?ps = "dict8 b1 b2 b3 b4 b5 b6 b7 b8"
  let ?sums = "dict8 (a1 + b1) (a2 + b2) (a3 + b3) (a4 + b4) (a5 + b5) (a6 + b6) (0 + b7) (0 + b8)"
  have sl: "sum_loop (map fst ?pw) ?pw ?ps ([], self) =
      Inr (?sums, summed self (a1 + b1) (a2 + b2) (a3 + b3) (a4 + b4) (a5 + b5) (a6 + b6)
        (0 + b7) (0 + b8))"
    unfolding keys_dict8 summed_def by (rule sum_loop_dict8)
  have keys: "\<forall>key \<in> set [''g'', ''gt'', ''gp'', ''gtt'', ''gtp'', ''gpp'', ''gs'', ''gsp''].
        \<exists>a b. getitem ?pw key = Inr a \<and> getitem ?ps key = Inr b \<and>
              getitem ?sums key = Inr (a + b) \<and> attrs obj key = Some (PFloat (a + b))"
    unfolding obj self1 summed_def eqs by simp
  show ?thesis
    using kw pw ps sl keys keys_dict8 by blast
qed

theorem C3_combined_keywise_sum_witness:
  "\<exists>obj pw ps. calculo no_IAPWS95 origin_self = Inr obj \<and>
     pure_water no_IAPWS95 True 273.15 0.101325 = Inr pw \<and>
     saline 273.15 0.101325 S_ref = Inr ps \<and>
     (\<forall>key \<in> set [''g'', ''gt'', ''gp'', ''gtt'', ''gtp'', ''gpp'', ''gs'', ''gsp''].
        \<exists>a b. getitem pw key = Inr a \<and> getitem ps key = Inr b \<and>
              attrs obj key = Some (PFloat (a + b)))"
proof -
  obtain obj where c: "calculo no_IAPWS95 origin_self = Inr obj"
    using calculo_origin_self by blast
  have kw: "kwargs origin_self =
      \<lparr>kw_T = Some 273.15, kw_P = Some 0.101325, kw_S = Some S_ref, kw_fast = True\<rparr>"
    by (simp add: origin_self_def update_kwargs_def origin_args_def SeaWater_kwargs_def)
  from C3_combined_keywise_sum [OF c] obtain pw ps where
    "pure_water no_IAPWS95 True 273.15 0.101325 = Inr pw"
    "saline 273.15 0.101325 S_ref = Inr ps"
    "\<forall>key \<in> set [''g'', ''gt'', ''gp'', ''gtt'', ''gtp'', ''gpp'', ''gs'', ''gsp''].
        \<exists>a b. getitem pw key = Inr a \<and> getitem ps key = Inr b \<and>
              attrs obj key = Some (PFloat (a + b))"
    unfolding kw kwargs_t.simps option.inject by blast
  with c show ?thesis by blast
qed

text \<open>
  C4: for every input that \<^verbatim>\<open>calculo\<close> evaluates with \<open>S \<noteq> 0\<close>: \<open>mu = gs\<close>, \<open>muw = g - S*gs\<close>,
  \<open>mus = g + (1-S)*gs\<close>, \<open>osm = -(g_saline - S*gs)/(m*R*T)\<close> with \<open>m = S/(1-S)/Ms\<close>,
  \<open>R = 8.314472\<close> and \<open>g_saline\<close> the value of \<open>g\<close> in the saline dictionary, and
  \<open>haline = -gsp/gp\<close>. For \<open>S = 0\<close> the five attributes are \<^verbatim>\<open>None\<close>, not zero.
\<close>

theorem C4_salinity_outputs:
  assumes "calculo IAPWS95 self = Inr obj"
  shows "\<exists>T P S.
     kw_T (kwargs self) = Some T \<and> kw_P (kwargs self) = Some P \<and> kw_S (kwargs self) = Some S \<and>
     (S \<noteq> 0 \<longrightarrow>
        (\<exists>g gp gs gsp ps g_saline.
           attrs obj ''g'' = Some (PFloat g) \<and> attrs obj ''gp'' = Some (PFloat gp) \<and>
           attrs obj ''gs'' = Some (PFloat gs) \<and> attrs obj ''gsp'' = Some (PFloat gsp) \<and>
           saline T P S = Inr ps \<and> getitem ps ''g'' = Inr g_saline \<and>
           S \<noteq> 1 \<and> T \<noteq> 0 \<and> gp \<noteq> 0 \<and>
           attrs obj ''mu'' = Some (PFloat gs) \<and>
           attrs obj ''muw'' = Some (PFloat (g - S * gs)) \<and>
           attrs obj ''mus'' = Some (PFloat (g + (1 - S) * gs)) \<and>
           attrs obj ''osm'' =
             Some (PFloat (- (g_saline - S * gs) / (S / (1 - S) / Ms * 8.314472 * T))) \<and>
           attrs obj ''haline'' = Some (PFloat (- gsp / gp)))) \<and>
     (S = 0 \<longrightarrow>
        attrs obj ''mu'' = Some PNone \<and> attrs obj ''muw'' = Some PNone \<and>
        attrs obj ''mus'' = Some PNone \<and> attrs obj ''osm'' = Some PNone \<and>
        attrs obj ''haline'' = Some PNone)"
proof -
  from assms obtain T P S where
    kw: "kw_T (kwargs self) = Some T" "kw_P (kwargs self) = Some P"
      "kw_S (kwargs self) = Some S" and
    body: "calculo_body IAPWS95 self T P S = Inr obj"
    by (rule calculo_Inr)
  from body obtain b1 b2 b3 b4 b5 b6 b7 b8 g gt gp gtt gtp gpp self1 where
    ps: "saline T P S = Inr (dict8 b1 b2 b3 b4 b5 b6 b7 b8)" and
    nz: "S \<noteq> 1" "gp \<noteq> 0" and
    T0: "S \<noteq> 0 \<longrightarrow> T \<noteq> 0" and
    self1: "self1 = setattr (setattr (setattr (setattr (setattr (setattr (setattr
        (setattr (setattr (setattr (setattr (setattr (setattr (setattr
          (summed self g gt gp gtt gtp gpp b7 b8)
          ''T'' (PFloat T))
          ''P'' (PFloat P))
          ''rho'' (PFloat (1 / gp)))
          ''v'' (PFloat gp))
          ''s'' (PFloat (- gt)))
          ''cp'' (PFloat (- T * gtt)))
          ''h'' (PFloat (g - T * gt)))
          ''u'' (PFloat (g - T * gt - P * 1000 * gp)))
          ''a'' (PFloat (g - P * 1000 * gp)))
          ''alfa'' (PFloat (gtp / gp)))
          ''betas'' (PFloat (- gtp / gtt)))
          ''kt'' (PFloat (- gpp / gp)))
          ''ks'' (PFloat ((gtp ^ 2 - gt * gpp) / gp / gtt)))
          ''w'' (let r = gtt * 1000 / (gtp ^ 2 - gtt * 1000 * gpp * 0.000001)
                 in if 0 \<le> r then PFloat (gp * sqrt r)
                    else PComplex (complex_of_real gp * csqrt (complex_of_real r)))" and
    obj: "obj = (if S \<noteq> 0
       then setattr (setattr (setattr (setattr (setattr self1
              ''mu'' (PFloat b7))
              ''muw'' (PFloat (g - S * b7)))
              ''mus'' (PFloat (g + (1 - S) * b7)))
              ''osm'' (PFloat (- (b1 - S * b7) / (S / (1 - S) / Ms) / Rm / T)))
              ''haline'' (PFloat (- b8 / gp))
       else setattr (setattr (setattr (setattr (setattr self1
              ''mu'' PNone) ''muw'' PNone) ''mus'' PNone) ''osm'' PNone) ''haline'' PNone)"
    by (rule calculo_body_explicit)
  have osm: "- (b1 - S * b7) / (S / (1 - S) / Ms) / Rm / T =
      - (b1 - S * b7) / (S / (1 - S) / Ms * 8.314472 * T)"
    by (simp add: Rm_def)
  have zero: "S = 0 \<longrightarrow>
        attrs obj ''mu'' = Some PNone \<and> attrs obj ''muw'' = Some PNone \<and>
        attrs obj ''mus'' = Some PNone \<and> attrs obj ''osm'' = Some PNone \<and>
        attrs obj ''haline'' = Some PNone"
    unfolding obj by simp
  have nonzero: "attrs obj ''g'' = Some (PFloat g) \<and> attrs obj ''gp'' = Some (PFloat gp) \<and>
           attrs obj ''gs'' = Some (PFloat b7) \<and> attrs obj ''gsp'' = Some (PFloat b8) \<and>
           getitem (dict8 b1 b2 b3 b4 b5 b6 b7 b8) ''g'' = Inr b1 \<and>
           attrs obj ''mu'' = Some (PFloat b7) \<and>
           attrs obj ''muw'' = Some (PFloat (g - S * b7)) \<and>
           attrs obj ''mus'' = Some (PFloat (g + (1 - S) * b7)) \<and>
           attrs obj ''osm'' =
             Some (PFloat (- (b1 - S * b7) / (S / (1 - S) / Ms * 8.314472 * T))) \<and>
           attrs obj ''haline'' = Some (PFloat (- b8 / gp))"
    if "S \<noteq> 0"
    unfolding osm [symmetric] obj self1 summed_def using that by simp
  show ?thesis
    using kw ps nz T0 zero nonzero by blast
qed

theorem C4_salinity_outputs_witness:
  "(\<exists>obj. calculo no_IAPWS95 origin_self = Inr obj \<and> S_ref \<noteq> 0 \<and>
      (\<exists>gs. attrs obj ''gs'' = Some (PFloat gs) \<and> attrs obj ''mu'' = Some (PFloat gs))) \<and>
   (\<exists>obj. calculo no_IAPWS95 fresh_self = Inr obj \<and> attrs obj ''mu'' = Some PNone \<and>
      attrs obj ''osm'' = Some PNone)"
proof -
  obtain obj where c: "calculo no_IAPWS95 origin_self = Inr obj"
    using calculo_origin_self by blast
  have S: "kw_S (kwargs origin_self) = Some S_ref" and S0: "S_ref \<noteq> 0"
    by (simp_all add: origin_self_def update_kwargs_def origin_args_def S_ref_def)
  have 1: "\<exists>gs. attrs obj ''gs'' = Some (PFloat gs) \<and> attrs obj ''mu'' = Some (PFloat gs)"
    using C4_salinity_outputs [OF c] S S0 by auto
  obtain obj' where c': "calculo no_IAPWS95 fresh_self = Inr obj'"
    using calculo_fresh_self by blast
  have S': "kw_S (kwargs fresh_self) = Some 0"
    by (simp add: fresh_self_def update_kwargs_def fresh_args_def)
  have 2: "attrs obj' ''mu'' = Some PNone \<and> attrs obj' ''osm'' = Some PNone"
    using C4_salinity_outputs [OF c'] S' by auto
  show ?thesis
    using c S0 1 c' 2 by blast
qed



text \<open>
  C6: in both series evaluators the dictionary is made from the accumulators that the loop
  over the table leaves, by the same normalisation: \<open>g\<close>, \<open>gt\<close>, \<open>gtt\<close> times \<open>10\<^sup>-\<^sup>3\<close>; \<open>gp\<close>,
  \<open>gpp\<close>, \<open>gtp\<close> times \<open>10\<^sup>-\<^sup>6\<close>; \<open>gt\<close> and \<open>gtp\<close> divided by 40, \<open>gtt\<close> by \<open>40\<^sup>2\<close>; \<open>gp\<close> and \<open>gtp\<close>
  divided by 100, \<open>gpp\<close> by \<open>100\<^sup>2\<close>; in the saline evaluator, for \<open>S > 0\<close>, \<open>gs\<close> and \<open>gsp\<close> are
  also divided by \<open>2 * S_ref\<close>, and \<open>gsp\<close> by 100. The fast water series sets \<open>gs\<close> and \<open>gsp\<close> to
  zero.
\<close>

theorem C6_normalization:
  "(let a = foldl (waterSupp_step ((T - 273.15) / 40) ((P - 0.101325) / 100)) acc6_zero
              (zip waterSupp_J (zip waterSupp_K waterSupp_G))
    in waterSupp T P =
        [(''g'', w_g a * (1 / 10 ^ 3)),
         (''gt'', w_gt a / 40 * (1 / 10 ^ 3)),
         (''gp'', w_gp a / 100 * (1 / 10 ^ 6)),
         (''gtt'', w_gtt a / 40 ^ 2 * (1 / 10 ^ 3)),
         (''gtp'', w_gtp a / 40 / 100 * (1 / 10 ^ 6)),
         (''gpp'', w_gpp a / 100 ^ 2 * (1 / 10 ^ 6)),
         (''gs'', 0),
         (''gsp'', 0)]) \<and>
   (\<forall>a. 0 < S \<and>
        saline_loop (sqrt (S / S_ref)) ((T' - 273.15) / 40) ((P' - 0.101325) / 100)
          (zip saline_I (zip saline_J (zip saline_K saline_G))) acc8_zero = Inr a \<longrightarrow>
      saline T' P' S =
        Inr [(''g'', s_g a * (1 / 10 ^ 3)),
             (''gt'', s_gt a / 40 * (1 / 10 ^ 3)),
             (''gp'', s_gp a / 100 * (1 / 10 ^ 6)),
             (''gtt'', s_gtt a / 40 ^ 2 * (1 / 10 ^ 3)),
             (''gtp'', s_gtp a / 40 / 100 * (1 / 10 ^ 6)),
             (''gpp'', s_gpp a / 100 ^ 2 * (1 / 10 ^ 6)),
             (''gs'', s_gs a / (2 * S_ref) * (1 / 10 ^ 3)),
             (''gsp'', s_gsp a / (2 * S_ref) / 100 * (1 / 10 ^ 6))])"
proof (intro conjI allI impI)
  show "let a = foldl (waterSupp_step ((T - 273.15) / 40) ((P - 0.101325) / 100)) acc6_zero
              (zip waterSupp_J (zip waterSupp_K waterSupp_G))
    in waterSupp T P =
        [(''g'', w_g a * (1 / 10 ^ 3)),
         (''gt'', w_gt a / 40 * (1 / 10 ^ 3)),
         (''gp'', w_gp a / 100 * (1 / 10 ^ 6)),
         (''gtt'', w_gtt a / 40 ^ 2 * (1 / 10 ^ 3)),
         (''gtp'', w_gtp a / 40 / 100 * (1 / 10 ^ 6)),
         (''gpp'', w_gpp a / 100 ^ 2 * (1 / 10 ^ 6)),
         (''gs'', 0),
         (''gsp'', 0)]"
    unfolding waterSupp_def waterSupp_sums_def Let_def by simp
next
  fix a
  assume a: "0 < S \<and>
        saline_loop (sqrt (S / S_ref)) ((T' - 273.15) / 40) ((P' - 0.101325) / 100)
          (zip saline_I (zip saline_J (zip saline_K saline_G))) acc8_zero = Inr a"
  then have "0 \<le> S / S_ref" and "S \<noteq> 0"
    using S_ref_pos by simp_all
  then have "saline_sums T' P' S = Inr a"
    using a unfolding saline_sums_def saline_table_def Let_def pow_half_def by simp
  then show "saline T' P' S =
        Inr [(''g'', s_g a * (1 / 10 ^ 3)),
             (''gt'', s_gt a / 40 * (1 / 10 ^ 3)),
             (''gp'', s_gp a / 100 * (1 / 10 ^ 6)),
             (''gtt'', s_gtt a / 40 ^ 2 * (1 / 10 ^ 3)),
             (''gtp'', s_gtp a / 40 / 100 * (1 / 10 ^ 6)),
             (''gpp'', s_gpp a / 100 ^ 2 * (1 / 10 ^ 6)),
             (''gs'', s_gs a / (2 * S_ref) * (1 / 10 ^ 3)),
             (''gsp'', s_gsp a / (2 * S_ref) / 100 * (1 / 10 ^ 6))]"
    by (simp add: saline_def)
qed

theorem C6_normalization_witness:
  "0 < S_ref \<and>
   (\<exists>a. saline_loop (sqrt (S_ref / S_ref)) ((273.15 - 273.15) / 40) ((0.101325 - 0.101325) / 100)
          (zip saline_I (zip saline_J (zip saline_K saline_G))) acc8_zero = Inr a \<and>
     saline 273.15 0.101325 S_ref =
        Inr [(''g'', s_g a * (1 / 10 ^ 3)),
             (''gt'', s_gt a / 40 * (1 / 10 ^ 3)),
             (''gp'', s_gp a / 100 * (1 / 10 ^ 6)),
             (''gtt'', s_gtt a / 40 ^ 2 * (1 / 10 ^ 3)),
             (''gtp'', s_gtp a / 40 / 100 * (1 / 10 ^ 6)),
             (''gpp'', s_gpp a / 100 ^ 2 * (1 / 10 ^ 6)),
             (''gs'', s_gs a / (2 * S_ref) * (1 / 10 ^ 3)),
             (''gsp'', s_gsp a / (2 * S_ref) / 100 * (1 / 10 ^ 6))])"
proof -
  have "S_ref \<noteq> 0"
    using S_ref_pos by simp
  then have X: "sqrt (S_ref / S_ref) = 1" "((273.15::real) - 273.15) / 40 = 0"
      "((0.101325::real) - 0.101325) / 100 = 0"
    by simp_all
  obtain a where
    "saline_loop (sqrt (S_ref / S_ref)) ((273.15 - 273.15) / 40) ((0.101325 - 0.101325) / 100)
          (zip saline_I (zip saline_J (zip saline_K saline_G))) acc8_zero = Inr a"
    unfolding X using saline_loop_origin unfolding saline_table_def by blast
  then show ?thesis
    using S_ref_pos C6_normalization [where S = S_ref and T' = "273.15" and P' = "0.101325"] by blast
qed

text \<open>
  C7, as stated, fails: the saline term is not total for every \<open>T\<close> and \<open>P\<close>. At \<open>T = 10\<^sup>6\<^sup>0\<close>,
  \<open>P = 1\<close> and \<open>S = 0.035\<close> the entry \<open>(2, 6, 0)\<close> of the table takes \<^verbatim>\<open>tau**6\<close> with
  \<open>tau\<close> near \<open>2.5 * 10\<^sup>5\<^sup>8\<close>, and that power raises OverflowError.
\<close>

theorem C7_saline_total_counterexample: "saline (10 ^ 60) 1 0.035 = Inl OverflowError"
  by (rule saline_overflow) (simp_all add: S_ref_def)

text \<open>
  C7, amended: for every salinity \<open>S > 0\<close>, and every \<open>T\<close> and \<open>P\<close>, \<open>X = sqrt (S / S_ref)\<close> is a
  positive float and the logarithm of \<open>X\<close>, the only one taken, succeeds, however small \<open>S\<close>
  is: the saline term raises no domain error and no ZeroDivisionError. It returns the
  dictionary of the eight keys or raises the OverflowError of a float power, and it returns
  the dictionary whenever \<open>S \<le> 1\<close>, \<open>\<bar>T\<bar> \<le> 10\<^sup>5\<^sup>0\<close> and \<open>\<bar>P\<bar> \<le> 10\<^sup>5\<^sup>0\<close>.
\<close>

theorem C7_saline_no_domain_error:
  assumes "0 < S"
  shows "(\<exists>X. pow_half (S / S_ref) = PFloat X \<and> 0 < X \<and> flog X = Inr (ln X)) \<and>
         ((\<exists>d. saline T P S = Inr d \<and>
              map fst d = [''g'', ''gt'', ''gp'', ''gtt'', ''gtp'', ''gpp'', ''gs'', ''gsp'']) \<or>
          saline T P S = Inl OverflowError) \<and>
         (S \<le> 1 \<and> \<bar>T\<bar> \<le> 10 ^ 50 \<and> \<bar>P\<bar> \<le> 10 ^ 50 \<longrightarrow>
            (\<exists>d. saline T P S = Inr d \<and>
              map fst d = [''g'', ''gt'', ''gp'', ''gtt'', ''gtp'', ''gpp'', ''gs'', ''gsp'']))"
proof -
  have q: "0 < S / S_ref"
    using assms S_ref_pos by simp
  then have X: "pow_half (S / S_ref) = PFloat (sqrt (S / S_ref))" and pos: "0 < sqrt (S / S_ref)"
    by (simp_all add: pow_half_def)
  have 1: "\<exists>X. pow_half (S / S_ref) = PFloat X \<and> 0 < X \<and> flog X = Inr (ln X)"
    using X pos flog_pos [OF pos] by blast
  have sums: "saline_sums T P S =
      saline_loop (sqrt (S / S_ref)) ((T - 273.15) / 40) ((P - 0.101325) / 100)
        saline_table acc8_zero"
    using assms X by (simp add: saline_sums_def)
  have "returns_or_overflows (saline_sums T P S)"
    unfolding sums by (rule saline_loop_no_domain_error [OF pos])
  then consider a where "saline_sums T P S = Inr a" | "saline_sums T P S = Inl OverflowError"
    unfolding returns_or_overflows_def by blast
  then have 2: "(\<exists>d. saline T P S = Inr d \<and>
              map fst d = [''g'', ''gt'', ''gp'', ''gtt'', ''gtp'', ''gpp'', ''gs'', ''gsp'']) \<or>
          saline T P S = Inl OverflowError"
  proof cases
    case 1
    then show ?thesis using saline_of_sums by blast
  next
    case 2
    then show ?thesis by (simp add: saline_def)
  qed
  have 3: "\<exists>d. saline T P S = Inr d \<and>
              map fst d = [''g'', ''gt'', ''gp'', ''gtt'', ''gtp'', ''gpp'', ''gs'', ''gsp'']"
    if "S \<le> 1 \<and> \<bar>T\<bar> \<le> 10 ^ 50 \<and> \<bar>P\<bar> \<le> 10 ^ 50"
    using saline_bounded [of S T P] assms that saline_of_sums by blast
  show ?thesis
    using 1 2 3 by blast
qed

theorem C7_saline_no_domain_error_witness:
  "0 < S_ref \<and> S_ref \<le> 1 \<and>
   \<bar>273.15 :: real\<bar> \<le> 10 ^ 50 \<and> \<bar>0.101325 :: real\<bar> \<le> 10 ^ 50 \<and>
   (\<exists>X. pow_half (S_ref / S_ref) = PFloat X \<and> 0 < X \<and> flog X = Inr (ln X)) \<and>
   (\<exists>d. saline 273.15 0.101325 S_ref = Inr d \<and>
        map fst d = [''g'', ''gt'', ''gp'', ''gtt'', ''gtp'', ''gpp'', ''gs'', ''gsp''])"
proof -
  have h: "S_ref \<le> 1 \<and> \<bar>273.15 :: real\<bar> \<le> 10 ^ 50 \<and> \<bar>0.101325 :: real\<bar> \<le> 10 ^ 50"
    by (simp add: S_ref_def)
  show ?thesis
    using S_ref_pos h
      C7_saline_no_domain_error [OF S_ref_pos, where T = "273.15" and P = "0.101325"]
    by blast
qed

text \<open>
  C8: the computation runs only when \<open>T\<close>, \<open>P\<close> and \<open>S\<close> are all given (\<open>S\<close> may be 0). A
  constructor call that lacks one of the three keys raises nothing and returns an object
  with \<open>status = 0\<close>, \<open>msg = ''Undefined''\<close> and no attribute set. A later call whose merged
  inputs are still incomplete changes nothing but the stored inputs. An object that the
  constructor returns is either evaluated, with \<open>status = 1\<close>, an empty \<open>msg\<close>, the attribute
  \<open>rho\<close> and all three inputs given, or not evaluated, so the two states are told apart.
  With the three inputs given, \<open>T\<close> and \<open>P\<close> not zero and any \<open>S\<close>, zero too, the constructor
  runs \<^verbatim>\<open>calculo\<close>.
\<close>

theorem C8_incomplete_input:
  "(arg_T a = None \<or> arg_P a = None \<or> arg_S a = None \<longrightarrow>
      (\<exists>obj. init IAPWS95 a = Inr obj \<and> status obj = 0 \<and> msg obj = ''Undefined'' \<and>
         attrs obj = Map.empty)) \<and>
   (\<not> truthy (kw_T (update_kwargs (kwargs self) a)) \<or>
    \<not> truthy (kw_P (update_kwargs (kwargs self) a)) \<or>
    kw_S (update_kwargs (kwargs self) a) = None \<longrightarrow>
      call IAPWS95 self a = Inr (self\<lparr>kwargs := update_kwargs (kwargs self) a\<rparr>)) \<and>
   (\<forall>obj. init IAPWS95 a = Inr obj \<longrightarrow>
      (status obj = 1 \<and> msg obj = [] \<and> attrs obj ''rho'' \<noteq> None \<and>
       (\<exists>T P S. arg_T a = Some (Some T) \<and> arg_P a = Some (Some P) \<and> arg_S a = Some (Some S))) \<or>
      (status obj = 0 \<and> msg obj = ''Undefined'' \<and> attrs obj = Map.empty)) \<and>
   (\<forall>T P S. arg_T a = Some (Some T) \<and> T \<noteq> 0 \<and> arg_P a = Some (Some P) \<and> P \<noteq> 0 \<and>
      arg_S a = Some (Some S) \<longrightarrow>
      init IAPWS95 a =
        bnd (calculo IAPWS95
              (SeaWater_new\<lparr>kwargs := update_kwargs SeaWater_kwargs a, status := 1\<rparr>))
          (\<lambda>self2. Inr (self2\<lparr>msg := ''''\<rparr>)))"
proof (intro conjI impI allI)
  assume "arg_T a = None \<or> arg_P a = None \<or> arg_S a = None"
  then have "init IAPWS95 a = Inr (SeaWater_new\<lparr>kwargs := update_kwargs SeaWater_kwargs a\<rparr>)"
    by (rule init_missing)
  then show "\<exists>obj. init IAPWS95 a = Inr obj \<and> status obj = 0 \<and> msg obj = ''Undefined'' \<and>
         attrs obj = Map.empty"
    by (simp add: SeaWater_new_def)
next
  assume "\<not> truthy (kw_T (update_kwargs (kwargs self) a)) \<or>
    \<not> truthy (kw_P (update_kwargs (kwargs self) a)) \<or>
    kw_S (update_kwargs (kwargs self) a) = None"
  then show "call IAPWS95 self a = Inr (self\<lparr>kwargs := update_kwargs (kwargs self) a\<rparr>)"
    by (rule call_incomplete)
next
  fix obj
  assume "init IAPWS95 a = Inr obj"
  then show "(status obj = 1 \<and> msg obj = [] \<and> attrs obj ''rho'' \<noteq> None \<and>
       (\<exists>T P S. arg_T a = Some (Some T) \<and> arg_P a = Some (Some P) \<and> arg_S a = Some (Some S))) \<or>
      (status obj = 0 \<and> msg obj = ''Undefined'' \<and> attrs obj = Map.empty)"
    by (rule init_cases)
next
  fix T P S
  assume "arg_T a = Some (Some T) \<and> T \<noteq> 0 \<and> arg_P a = Some (Some P) \<and> P \<noteq> 0 \<and>
      arg_S a = Some (Some S)"
  then show "init IAPWS95 a =
        bnd (calculo IAPWS95
              (SeaWater_new\<lparr>kwargs := update_kwargs SeaWater_kwargs a, status := 1\<rparr>))
          (\<lambda>self2. Inr (self2\<lparr>msg := ''''\<rparr>))"
    using init_supplied by blast
qed

theorem C8_incomplete_input_witness:
  "arg_S no_salinity_args = None \<and>
   (\<exists>obj. init no_IAPWS95 no_salinity_args = Inr obj \<and> status obj = 0 \<and>
      msg obj = ''Undefined'' \<and> attrs obj = Map.empty) \<and>
   kw_S (update_kwargs (kwargs SeaWater_new) no_salinity_args) = None \<and>
   call no_IAPWS95 SeaWater_new no_salinity_args =
     Inr (SeaWater_new\<lparr>kwargs := update_kwargs (kwargs SeaWater_new) no_salinity_args\<rparr>) \<and>
   (\<exists>obj. init no_IAPWS95 origin_args = Inr obj \<and> status obj = 1 \<and> msg obj = []) \<and>
   arg_S fresh_args = Some (Some 0) \<and>
   (\<exists>obj. init no_IAPWS95 fresh_args = Inr obj \<and> msg obj = [])"
proof -
  have m: "arg_S no_salinity_args = None"
    by (simp add: no_salinity_args_def)
  have k: "kw_S (update_kwargs (kwargs SeaWater_new) no_salinity_args) = None"
    by (simp add: no_salinity_args_def update_kwargs_def SeaWater_new_def SeaWater_kwargs_def)
  obtain obj where o: "init no_IAPWS95 origin_args = Inr obj" and s: "status obj = 1"
    using init_origin by blast
  have 1: "status obj = 1 \<and> msg obj = []"
    using C8_incomplete_input [of origin_args no_IAPWS95 SeaWater_new] o s by auto
  have f: "arg_T fresh_args = Some (Some 273.15) \<and> (273.15::real) \<noteq> 0 \<and>
      arg_P fresh_args = Some (Some 0.101325) \<and> (0.101325::real) \<noteq> 0 \<and>
      arg_S fresh_args = Some (Some 0)"
    by (simp add: fresh_args_def)
  obtain obj' where c: "calculo no_IAPWS95 fresh_self = Inr obj'"
    using calculo_fresh_self by blast
  have "init no_IAPWS95 fresh_args =
      bnd (calculo no_IAPWS95 fresh_self) (\<lambda>self2. Inr (self2\<lparr>msg := ''''\<rparr>))"
    using C8_incomplete_input [of fresh_args no_IAPWS95 SeaWater_new] f unfolding fresh_self_def by blast
  then have 2: "\<exists>obj. init no_IAPWS95 fresh_args = Inr obj \<and> msg obj = []"
    by (simp add: c)
  show ?thesis
    using m k o 1 2 f C8_incomplete_input [of no_salinity_args no_IAPWS95 SeaWater_new] by blast
qed

text \<open>
  C9, as stated, fails: \<^verbatim>\<open>calculo\<close> sets the attributes \<open>T\<close> and \<open>P\<close> and no attribute \<open>S\<close>.
  The object that \<^verbatim>\<open>SeaWater(T=273.15, P=0.101325, S=0.03516504*40/35, fast=True)\<close>
  returns is evaluated and has no attribute \<open>S\<close>.
\<close>

theorem C9_salinity_attribute_counterexample:
  "\<not> isl (init no_IAPWS95 origin_args) \<and>
   arg_S origin_args = Some (Some S_ref) \<and>
   status (projr (init no_IAPWS95 origin_args)) = 1 \<and>
   attrs (projr (init no_IAPWS95 origin_args)) ''S'' = None"
proof -
  obtain obj where "init no_IAPWS95 origin_args = Inr obj" "status obj = 1"
    "attrs obj ''S'' = None"
    using init_origin by blast
  then show ?thesis
    by (simp add: origin_args_def)
qed

text \<open>
  C9, amended: for every input that \<^verbatim>\<open>calculo\<close> evaluates, the attribute \<open>T\<close> of the object
  is the input \<open>T\<close> and its attribute \<open>P\<close> is the input \<open>P\<close>; the salinity is kept in
  \<^verbatim>\<open>kwargs["S"]\<close>, which is the input \<open>S\<close>, and \<^verbatim>\<open>calculo\<close> leaves the attribute \<open>S\<close> as
  it was.
\<close>

theorem C9_echoes_temperature_pressure:
  assumes "calculo IAPWS95 self = Inr obj"
  shows "\<exists>T P S.
     kw_T (kwargs self) = Some T \<and> kw_P (kwargs self) = Some P \<and> kw_S (kwargs self) = Some S \<and>
     attrs obj ''T'' = Some (PFloat T) \<and> attrs obj ''P'' = Some (PFloat P) \<and>
     kw_S (kwargs obj) = Some S \<and> attrs obj ''S'' = attrs self ''S''"
proof -
  from assms obtain T P S where
    kw: "kw_T (kwargs self) = Some T" "kw_P (kwargs self) = Some P"
      "kw_S (kwargs self) = Some S" and
    body: "calculo_body IAPWS95 self T P S = Inr obj"
    by (rule calculo_Inr)
  show ?thesis
    using kw calculo_body_fields [OF body] by simp
qed

theorem C9_echoes_temperature_pressure_witness:
  "\<exists>obj. calculo no_IAPWS95 origin_self = Inr obj \<and>
     attrs obj ''T'' = Some (PFloat 273.15) \<and> attrs obj ''P'' = Some (PFloat 0.101325) \<and>
     kw_S (kwargs obj) = Some S_ref \<and> attrs obj ''S'' = None"
proof -
  obtain obj where c: "calculo no_IAPWS95 origin_self = Inr obj"
    using calculo_origin_self by blast
  have kw: "kwargs origin_self =
      \<lparr>kw_T = Some 273.15, kw_P = Some 0.101325, kw_S = Some S_ref, kw_fast = True\<rparr>"
      and at: "attrs origin_self ''S'' = None"
    by (simp_all add: origin_self_def update_kwargs_def origin_args_def SeaWater_kwargs_def
        SeaWater_new_def)
  show ?thesis
    using c C9_echoes_temperature_pressure [OF c] by (auto simp: kw at)
qed

text \<open>
  C10: every entry of the saline table with \<open>i = 1\<close> has \<open>j \<le> 1\<close> and \<open>k = 0\<close>. So the loop
  body, run on such an entry, leaves the accumulators \<open>gp\<close>, \<open>gsp\<close>, \<open>gtt\<close>, \<open>gtp\<close> and \<open>gpp\<close>,
  whose branches use the plain powers of \<open>X\<close>, as they were.
\<close>

theorem C10_saline_log_entries:
  "\<forall>e \<in> set saline_table. fst e = 1 \<longrightarrow>
     fst (snd e) \<le> 1 \<and> fst (snd (snd e)) = 0 \<and>
     (\<forall>X tau ppi a a'. saline_step X tau ppi a e = Inr a' \<longrightarrow>
        s_gp a' = s_gp a \<and> s_gsp a' = s_gsp a \<and> s_gtt a' = s_gtt a \<and>
        s_gtp a' = s_gtp a \<and> s_gpp a' = s_gpp a)"
proof (intro ballI impI)
  fix e assume e: "e \<in> set saline_table" and i: "fst e = 1"
  obtain j k gi where eq: "e = (Suc 0, j, k, gi)"
    using i by (cases e) auto
  have jk: "j \<le> 1 \<and> k = 0"
    using table_log e i eq by fastforce
  show "fst (snd e) \<le> 1 \<and> fst (snd (snd e)) = 0 \<and>
     (\<forall>X tau ppi a a'. saline_step X tau ppi a e = Inr a' \<longrightarrow>
        s_gp a' = s_gp a \<and> s_gsp a' = s_gsp a \<and> s_gtt a' = s_gtt a \<and>
        s_gtp a' = s_gtp a \<and> s_gpp a' = s_gpp a)"
    using jk saline_step_log_entry [of j _ _ _ _ gi] by (simp add: eq)
qed

theorem C10_saline_log_entries_witness:
  "(1, 0, 0, 5812.81456626732) \<in> set saline_table \<and>
   saline_step 1 0 0 acc8_zero (1, 0, 0, 5812.81456626732) =
     Inr (acc8_zero\<lparr>s_gs := 5812.81456626732\<rparr>) \<and>
   s_gp (acc8_zero\<lparr>s_gs := 5812.81456626732\<rparr>) = s_gp acc8_zero \<and>
   s_gsp (acc8_zero\<lparr>s_gs := 5812.81456626732\<rparr>) = s_gsp acc8_zero"
proof -
  have m: "(1, 0, 0, 5812.81456626732) \<in> set saline_table"
    by (subst saline_table_first) simp
  have s: "saline_step 1 0 0 acc8_zero (1, 0, 0, 5812.81456626732) =
      Inr (acc8_zero\<lparr>s_gs := 5812.81456626732\<rparr>)"
    by (simp add: saline_step_def flog_def acc8_zero_def)
  have "\<forall>X tau ppi a a'. saline_step X tau ppi a (1, 0, 0, 5812.81456626732) = Inr a' \<longrightarrow>
        s_gp a' = s_gp a \<and> s_gsp a' = s_gsp a \<and> s_gtt a' = s_gtt a \<and>
        s_gtp a' = s_gtp a \<and> s_gpp a' = s_gpp a"
    using bspec [OF C10_saline_log_entries m] by simp
  then show ?thesis
    using m s by blast
qed

end
